theory Spec2Isabelle
  imports Main "HOL-Library.Word"
begin

unbundle bit_operations_syntax

section \<open>Machine types\<close>

text \<open>
  The code is built for a 64-bit ELF target (\<^verbatim>\<open>__x86_64\<close> or \<^verbatim>\<open>__aarch64__\<close>):
  an address, a data pointer, a function pointer and a \<^verbatim>\<open>size_t\<close> are 64-bit words,
  a C \<^verbatim>\<open>int\<close> is a 32-bit word read as two's complement.
\<close>

type_synonym Addr = "64 word"
type_synonym size_t = "64 word"
type_synonym c_int = "32 word"

section \<open>Hooks (hooks.cpp)\<close>

text \<open>The fourteen \<^verbatim>\<open>SymbolHook\<close> objects of namespace \<^verbatim>\<open>hooks\<close>, in declaration order.\<close>

datatype hook =
    Malloc | Free | Calloc | Realloc | Posix_memalign | Memalign | Valloc | Pvalloc
  | Dlopen | Dlclose | Mmap | Mmap64 | Munmap | PyGILState_Ensure

text \<open>The first constructor argument of each \<^verbatim>\<open>SymbolHook\<close>: the symbol's name.\<close>

fun d_symbol :: "hook \<Rightarrow> string" where
  "d_symbol Malloc = ''malloc''"
| "d_symbol Free = ''free''"
| "d_symbol Calloc = ''calloc''"
| "d_symbol Realloc = ''realloc''"
| "d_symbol Posix_memalign = ''posix_memalign''"
| "d_symbol Memalign = ''memalign''"
| "d_symbol Valloc = ''valloc''"
| "d_symbol Pvalloc = ''pvalloc''"
| "d_symbol Dlopen = ''dlopen''"
| "d_symbol Dlclose = ''dlclose''"
| "d_symbol Mmap = ''mmap''"
| "d_symbol Mmap64 = ''mmap64''"
| "d_symbol Munmap = ''munmap''"
| "d_symbol PyGILState_Ensure = ''PyGILState_Ensure''"

datatype Allocator =
    MALLOC | FREE | CALLOC | REALLOC | POSIX_MEMALIGN | MEMALIGN | VALLOC | PVALLOC
  | MMAP | MUNMAP

datatype AllocatorKind =
    SIMPLE_ALLOCATOR | SIMPLE_DEALLOCATOR | RANGED_ALLOCATOR | RANGED_DEALLOCATOR

fun allocatorKind :: "Allocator \<Rightarrow> AllocatorKind" where
  "allocatorKind CALLOC = SIMPLE_ALLOCATOR"
| "allocatorKind MALLOC = SIMPLE_ALLOCATOR"
| "allocatorKind MEMALIGN = SIMPLE_ALLOCATOR"
| "allocatorKind POSIX_MEMALIGN = SIMPLE_ALLOCATOR"
| "allocatorKind PVALLOC = SIMPLE_ALLOCATOR"
| "allocatorKind REALLOC = SIMPLE_ALLOCATOR"
| "allocatorKind VALLOC = SIMPLE_ALLOCATOR"
| "allocatorKind FREE = SIMPLE_DEALLOCATOR"
| "allocatorKind MMAP = RANGED_ALLOCATOR"
| "allocatorKind MUNMAP = RANGED_DEALLOCATOR"

section \<open>Intercept trampolines (hooks.cpp, namespace intercept)\<close>

text \<open>
  A trampoline has two kinds of effect: the call of the real function through its hook,
  and the notifications to the tracker. Both are recorded, in program order, in a trace.
  The real functions are not part of the repository: they are parameters, each a state
  transformer on an abstract world \<open>'w\<close> (the heap, the address space, the loaded
  libraries) that returns what the C function returns.
\<close>

datatype event =
    Original hook
  | trackAllocation Addr size_t Allocator
  | trackDeallocation Addr size_t Allocator
  | invalidate_module_cache
  | flushCache
  | install_trace_function

text \<open>
  \<open>orig_posix_memalign\<close> returns the status together with the pointer found in
  \<^verbatim>\<open>*memptr\<close> after the call. \<open>resolved h\<close> is the hook's conversion to bool,
  which the \<^verbatim>\<open>assert\<close> at the head of a trampoline tests.
\<close>

record 'w originals =
  resolved :: "hook \<Rightarrow> bool"
  orig_malloc :: "size_t \<Rightarrow> 'w \<Rightarrow> Addr \<times> 'w"
  orig_free :: "Addr \<Rightarrow> 'w \<Rightarrow> unit \<times> 'w"
  orig_calloc :: "size_t \<Rightarrow> size_t \<Rightarrow> 'w \<Rightarrow> Addr \<times> 'w"
  orig_realloc :: "Addr \<Rightarrow> size_t \<Rightarrow> 'w \<Rightarrow> Addr \<times> 'w"
  orig_posix_memalign :: "Addr \<Rightarrow> size_t \<Rightarrow> size_t \<Rightarrow> 'w \<Rightarrow> (c_int \<times> Addr) \<times> 'w"
  orig_memalign :: "size_t \<Rightarrow> size_t \<Rightarrow> 'w \<Rightarrow> Addr \<times> 'w"
  orig_valloc :: "size_t \<Rightarrow> 'w \<Rightarrow> Addr \<times> 'w"
  orig_pvalloc :: "size_t \<Rightarrow> 'w \<Rightarrow> Addr \<times> 'w"
  orig_dlopen :: "Addr \<Rightarrow> c_int \<Rightarrow> 'w \<Rightarrow> Addr \<times> 'w"
  orig_dlclose :: "Addr \<Rightarrow> 'w \<Rightarrow> c_int \<times> 'w"
  orig_mmap :: "Addr \<Rightarrow> size_t \<Rightarrow> c_int \<Rightarrow> c_int \<Rightarrow> c_int \<Rightarrow> 64 word \<Rightarrow> 'w \<Rightarrow> Addr \<times> 'w"
  orig_mmap64 :: "Addr \<Rightarrow> size_t \<Rightarrow> c_int \<Rightarrow> c_int \<Rightarrow> c_int \<Rightarrow> 64 word \<Rightarrow> 'w \<Rightarrow> Addr \<times> 'w"
  orig_munmap :: "Addr \<Rightarrow> size_t \<Rightarrow> 'w \<Rightarrow> c_int \<times> 'w"
  orig_PyGILState_Ensure :: "'w \<Rightarrow> c_int \<times> 'w"

record 'w tstate =
  world :: 'w
  trace :: "event list"

datatype fault = AssertionFailed hook

text \<open>\<^verbatim>\<open>hooks::name(args...)\<close>: the call of the real function through the hook.\<close>

definition call_original ::
  "hook \<Rightarrow> ('w \<Rightarrow> 'a \<times> 'w) \<Rightarrow> 'w tstate \<Rightarrow> 'a \<times> 'w tstate" where
  "call_original h f s =
     (case f (world s) of
        (r, w') \<Rightarrow> (r, s\<lparr>world := w', trace := trace s @ [Original h]\<rparr>))"

text \<open>A call into the tracking API.\<close>

definition notify :: "event \<Rightarrow> 'w tstate \<Rightarrow> 'w tstate" where
  "notify e s = s\<lparr>trace := trace s @ [e]\<rparr>"

definition intercept_mmap ::
  "'w originals \<Rightarrow> Addr \<Rightarrow> size_t \<Rightarrow> c_int \<Rightarrow> c_int \<Rightarrow> c_int \<Rightarrow> 64 word \<Rightarrow> 'w tstate
     \<Rightarrow> fault + (Addr \<times> 'w tstate)" where
  "intercept_mmap L addr length' prot flags fd offset s =
     (if \<not> resolved L Mmap then Inl (AssertionFailed Mmap)
      else case call_original Mmap (orig_mmap L addr length' prot flags fd offset) s of
        (ptr, s1) \<Rightarrow> Inr (ptr, notify (trackAllocation ptr length' MMAP) s1))"

definition intercept_mmap64 ::
  "'w originals \<Rightarrow> Addr \<Rightarrow> size_t \<Rightarrow> c_int \<Rightarrow> c_int \<Rightarrow> c_int \<Rightarrow> 64 word \<Rightarrow> 'w tstate
     \<Rightarrow> fault + (Addr \<times> 'w tstate)" where
  "intercept_mmap64 L addr length' prot flags fd offset s =
     (if \<not> resolved L Mmap64 then Inl (AssertionFailed Mmap64)
      else case call_original Mmap64 (orig_mmap64 L addr length' prot flags fd offset) s of
        (ptr, s1) \<Rightarrow> Inr (ptr, notify (trackAllocation ptr length' MMAP) s1))"

definition intercept_munmap ::
  "'w originals \<Rightarrow> Addr \<Rightarrow> size_t \<Rightarrow> 'w tstate \<Rightarrow> fault + (c_int \<times> 'w tstate)" where
  "intercept_munmap L addr length' s =
     (if \<not> resolved L Munmap then Inl (AssertionFailed Munmap)
      else Inr (call_original Munmap (orig_munmap L addr length')
                  (notify (trackDeallocation addr length' MUNMAP) s)))"

definition intercept_malloc ::
  "'w originals \<Rightarrow> size_t \<Rightarrow> 'w tstate \<Rightarrow> fault + (Addr \<times> 'w tstate)" where
  "intercept_malloc L size' s =
     (if \<not> resolved L Malloc then Inl (AssertionFailed Malloc)
      else case call_original Malloc (orig_malloc L size') s of
        (ptr, s1) \<Rightarrow> Inr (ptr, notify (trackAllocation ptr size' MALLOC) s1))"

definition intercept_free ::
  "'w originals \<Rightarrow> Addr \<Rightarrow> 'w tstate \<Rightarrow> fault + (unit \<times> 'w tstate)" where
  "intercept_free L ptr s =
     (if \<not> resolved L Free then Inl (AssertionFailed Free)
      else Inr (call_original Free (orig_free L ptr)
                  (notify (trackDeallocation ptr 0 FREE) s)))"

definition intercept_realloc ::
  "'w originals \<Rightarrow> Addr \<Rightarrow> size_t \<Rightarrow> 'w tstate \<Rightarrow> fault + (Addr \<times> 'w tstate)" where
  "intercept_realloc L ptr size' s =
     (if \<not> resolved L Realloc then Inl (AssertionFailed Realloc)
      else case call_original Realloc (orig_realloc L ptr size') s of
        (ret, s1) \<Rightarrow>
          Inr (ret,
            if ret \<noteq> 0
            then notify (trackAllocation ret size' REALLOC)
                   (notify (trackDeallocation ptr 0 FREE) s1)
            else s1))"

definition intercept_calloc ::
  "'w originals \<Rightarrow> size_t \<Rightarrow> size_t \<Rightarrow> 'w tstate \<Rightarrow> fault + (Addr \<times> 'w tstate)" where
  "intercept_calloc L num size' s =
     (if \<not> resolved L Calloc then Inl (AssertionFailed Calloc)
      else case call_original Calloc (orig_calloc L num size') s of
        (ret, s1) \<Rightarrow>
          Inr (ret,
            if ret \<noteq> 0 then notify (trackAllocation ret (num * size') CALLOC) s1 else s1))"

definition intercept_posix_memalign ::
  "'w originals \<Rightarrow> Addr \<Rightarrow> size_t \<Rightarrow> size_t \<Rightarrow> 'w tstate \<Rightarrow> fault + (c_int \<times> 'w tstate)" where
  "intercept_posix_memalign L memptr alignment size' s =
     (if \<not> resolved L Posix_memalign then Inl (AssertionFailed Posix_memalign)
      else case call_original Posix_memalign (orig_posix_memalign L memptr alignment size') s of
        ((ret, stored), s1) \<Rightarrow>
          Inr (ret,
            if ret = 0 then notify (trackAllocation stored size' POSIX_MEMALIGN) s1 else s1))"

definition intercept_memalign ::
  "'w originals \<Rightarrow> size_t \<Rightarrow> size_t \<Rightarrow> 'w tstate \<Rightarrow> fault + (Addr \<times> 'w tstate)" where
  "intercept_memalign L alignment size' s =
     (if \<not> resolved L Memalign then Inl (AssertionFailed Memalign)
      else case call_original Memalign (orig_memalign L alignment size') s of
        (ret, s1) \<Rightarrow>
          Inr (ret,
            if ret \<noteq> 0 then notify (trackAllocation ret size' MEMALIGN) s1 else s1))"

definition intercept_valloc ::
  "'w originals \<Rightarrow> size_t \<Rightarrow> 'w tstate \<Rightarrow> fault + (Addr \<times> 'w tstate)" where
  "intercept_valloc L size' s =
     (if \<not> resolved L Valloc then Inl (AssertionFailed Valloc)
      else case call_original Valloc (orig_valloc L size') s of
        (ret, s1) \<Rightarrow>
          Inr (ret,
            if ret \<noteq> 0 then notify (trackAllocation ret size' VALLOC) s1 else s1))"

definition intercept_pvalloc ::
  "'w originals \<Rightarrow> size_t \<Rightarrow> 'w tstate \<Rightarrow> fault + (Addr \<times> 'w tstate)" where
  "intercept_pvalloc L size' s =
     (if \<not> resolved L Pvalloc then Inl (AssertionFailed Pvalloc)
      else case call_original Pvalloc (orig_pvalloc L size') s of
        (ret, s1) \<Rightarrow>
          Inr (ret,
            if ret \<noteq> 0 then notify (trackAllocation ret size' PVALLOC) s1 else s1))"

definition intercept_dlopen ::
  "'w originals \<Rightarrow> Addr \<Rightarrow> c_int \<Rightarrow> 'w tstate \<Rightarrow> fault + (Addr \<times> 'w tstate)" where
  "intercept_dlopen L filename flag s =
     (if \<not> resolved L Dlopen then Inl (AssertionFailed Dlopen)
      else case call_original Dlopen (orig_dlopen L filename flag) s of
        (ret, s1) \<Rightarrow> Inr (ret, if ret \<noteq> 0 then notify invalidate_module_cache s1 else s1))"

definition intercept_dlclose ::
  "'w originals \<Rightarrow> Addr \<Rightarrow> 'w tstate \<Rightarrow> fault + (c_int \<times> 'w tstate)" where
  "intercept_dlclose L handle s =
     (if \<not> resolved L Dlclose then Inl (AssertionFailed Dlclose)
      else case call_original Dlclose (orig_dlclose L handle) s of
        (ret, s1) \<Rightarrow>
          (let s2 = notify flushCache s1
           in Inr (ret, if ret = 0 then notify invalidate_module_cache s2 else s2)))"

text \<open>The only trampoline without an assertion.\<close>

definition intercept_PyGILState_Ensure :: "'w originals \<Rightarrow> 'w tstate \<Rightarrow> c_int \<times> 'w tstate" where
  "intercept_PyGILState_Ensure L s =
     (case call_original PyGILState_Ensure (orig_PyGILState_Ensure L) s of
        (ret, s1) \<Rightarrow> (ret, notify install_trace_function s1))"

text \<open>
  A C library in which every request fails: the allocators return the null pointer,
  \<^verbatim>\<open>mmap\<close> returns \<^verbatim>\<open>MAP_FAILED\<close> (all bits set), \<^verbatim>\<open>posix_memalign\<close> returns
  \<^verbatim>\<open>ENOMEM\<close> (12) and the calls with a status return -1. Its world is a counter of
  the calls made.
\<close>

definition MAP_FAILED :: Addr where
  "MAP_FAILED = - 1"

definition failing_libc :: "nat originals" where
  "failing_libc =
     \<lparr> resolved = (\<lambda>h. True),
       orig_malloc = (\<lambda>size' w. (0, Suc w)),
       orig_free = (\<lambda>ptr w. ((), Suc w)),
       orig_calloc = (\<lambda>num size' w. (0, Suc w)),
       orig_realloc = (\<lambda>ptr size' w. (0, Suc w)),
       orig_posix_memalign = (\<lambda>memptr alignment size' w. ((12, 0), Suc w)),
       orig_memalign = (\<lambda>alignment size' w. (0, Suc w)),
       orig_valloc = (\<lambda>size' w. (0, Suc w)),
       orig_pvalloc = (\<lambda>size' w. (0, Suc w)),
       orig_dlopen = (\<lambda>filename flag w. (0, Suc w)),
       orig_dlclose = (\<lambda>handle w. (- 1, Suc w)),
       orig_mmap = (\<lambda>addr length' prot flags fd offset w. (MAP_FAILED, Suc w)),
       orig_mmap64 = (\<lambda>addr length' prot flags fd offset w. (MAP_FAILED, Suc w)),
       orig_munmap = (\<lambda>addr length' w. (- 1, Suc w)),
       orig_PyGILState_Ensure = (\<lambda>w. (0, Suc w)) \<rparr>"

text \<open>
  A C library in which every request succeeds, each allocator returning a fixed
  non-null address.
\<close>

definition working_libc :: "nat originals" where
  "working_libc =
     \<lparr> resolved = (\<lambda>h. True),
       orig_malloc = (\<lambda>size' w. (4096, Suc w)),
       orig_free = (\<lambda>ptr w. ((), Suc w)),
       orig_calloc = (\<lambda>num size' w. (4096, Suc w)),
       orig_realloc = (\<lambda>ptr size' w. (8192, Suc w)),
       orig_posix_memalign = (\<lambda>memptr alignment size' w. ((0, 4096), Suc w)),
       orig_memalign = (\<lambda>alignment size' w. (4096, Suc w)),
       orig_valloc = (\<lambda>size' w. (4096, Suc w)),
       orig_pvalloc = (\<lambda>size' w. (4096, Suc w)),
       orig_dlopen = (\<lambda>filename flag w. (4096, Suc w)),
       orig_dlclose = (\<lambda>handle w. (0, Suc w)),
       orig_mmap = (\<lambda>addr length' prot flags fd offset w. (4096, Suc w)),
       orig_mmap64 = (\<lambda>addr length' prot flags fd offset w. (4096, Suc w)),
       orig_munmap = (\<lambda>addr length' w. (0, Suc w)),
       orig_PyGILState_Ensure = (\<lambda>w. (0, Suc w)) \<rparr>"

section \<open>Loaded modules and their dynamic sections (link.h, elf.h)\<close>

record phdr =
  p_type :: "32 word"
  p_vaddr :: Addr

definition PT_DYNAMIC :: "32 word" where
  "PT_DYNAMIC = 2"

text \<open>
  What \<^verbatim>\<open>dl_iterate_phdr\<close> hands to its callback: the load base, the path and the
  program headers (\<^verbatim>\<open>dlpi_phnum\<close> is the length of the list).
\<close>

record dl_phdr_info =
  dlpi_addr :: Addr
  dlpi_name :: string
  dlpi_phdr :: "phdr list"

text \<open>
  An entry of a relocation table. \<^verbatim>\<open>Elf64_Rela\<close> has an addend as well, which the
  code never reads.
\<close>

record relocation =
  r_offset :: Addr
  r_info :: "64 word"

text \<open>\<^verbatim>\<open>ELF64_R_SYM(i)\<close> is \<^verbatim>\<open>((i) >> 32)\<close>.\<close>

definition ELF_R_SYM :: "64 word \<Rightarrow> 64 word" where
  "ELF_R_SYM i = drop_bit 32 i"

definition PROT_READ :: c_int where
  "PROT_READ = 1"

definition PROT_WRITE :: c_int where
  "PROT_WRITE = 2"

text \<open>
  Modelled from the spec: \<^verbatim>\<open>elf_utils.h\<close> and \<^verbatim>\<open>hooks.h\<close> are not among the
  sources, so what they declare is taken as a parameter. \<open>RelTable\<close>, \<open>RelaTable\<close>
  and \<open>JmprelTable\<close> give the three relocation sequences read at a dynamic-section
  pointer; \<open>getSymbolNameByIndex base dyn\<close> and \<open>getSymbolAddress base dyn\<close> are
  the two lookups of \<^verbatim>\<open>SymbolTable(base, dyn)\<close>, the second returning 0 for a name
  it does not resolve. \<open>d_original h\<close> is the pointer captured in hook \<open>h\<close> and
  \<open>intercept h\<close> the address of its trampoline. The platform gives \<open>page_len\<close>
  (\<^verbatim>\<open>getpagesize()\<close>) and the result of \<^verbatim>\<open>mprotect(page, len, prot)\<close>. The
  views are read-only: the tables lie in memory that patching does not write to.
\<close>

record elf_env =
  d_original :: "hook \<Rightarrow> Addr"
  intercept :: "hook \<Rightarrow> Addr"
  page_len :: "64 word"
  mprotect :: "Addr \<Rightarrow> 64 word \<Rightarrow> c_int \<Rightarrow> c_int"
  RelTable :: "Addr \<Rightarrow> relocation list"
  RelaTable :: "Addr \<Rightarrow> relocation list"
  JmprelTable :: "Addr \<Rightarrow> relocation list"
  getSymbolNameByIndex :: "Addr \<Rightarrow> Addr \<Rightarrow> 64 word \<Rightarrow> string"
  getSymbolAddress :: "Addr \<Rightarrow> Addr \<Rightarrow> string \<Rightarrow> Addr"

text \<open>
  \<^verbatim>\<open>strstr(haystack, needle) != NULL\<close>: the needle occurs in the haystack as a
  contiguous run of characters.
\<close>

fun starts_with :: "string \<Rightarrow> string \<Rightarrow> bool" where
  "starts_with hay [] = True"
| "starts_with [] (n # ns) = False"
| "starts_with (h # hs) (n # ns) = (h = n \<and> starts_with hs ns)"

fun strstr :: "string \<Rightarrow> string \<Rightarrow> bool" where
  "strstr [] needle = (needle = [])"
| "strstr (h # hs) needle = (starts_with (h # hs) needle \<or> strstr hs needle)"

text \<open>
  Modelled from the spec: \<^verbatim>\<open>dl_iterate_phdr\<close> is the platform's module enumeration.
  It calls the callback once per loaded module, in order, until the callback returns a
  non-zero value, and returns the value of the last call (0 when there was none). The
  data pointer it hands through is the state \<open>d\<close>. The C library this code is
  built against hands the main program to the callback first, with an empty name; a
  property that needs this says so.
\<close>

fun dl_iterate_phdr ::
  "(dl_phdr_info \<Rightarrow> 'd \<Rightarrow> c_int \<times> 'd) \<Rightarrow> dl_phdr_info list \<Rightarrow> 'd \<Rightarrow> c_int \<times> 'd" where
  "dl_iterate_phdr callback [] d = (0, d)"
| "dl_iterate_phdr callback (info # rest) d =
     (case callback info d of
        (ret, d') \<Rightarrow> if ret \<noteq> 0 then (ret, d') else dl_iterate_phdr callback rest d')"

section \<open>Symbol finder (hooks.cpp)\<close>

record symbol_query =
  maps_visited :: size_t
  symbol_name :: string
  address :: Addr

text \<open>The loop over the program headers inside \<^verbatim>\<open>phdr_symfind_callback\<close>.\<close>

fun symfind_segments ::
  "elf_env \<Rightarrow> dl_phdr_info \<Rightarrow> phdr list \<Rightarrow> symbol_query \<Rightarrow> c_int \<times> symbol_query" where
  "symfind_segments E info [] result = (0, result)"
| "symfind_segments E info (ph # rest) result =
     (if p_type ph \<noteq> PT_DYNAMIC then symfind_segments E info rest result
      else let offset = getSymbolAddress E (dlpi_addr info) (p_vaddr ph + dlpi_addr info)
                          (symbol_name result)
           in if offset = 0 then symfind_segments E info rest result
              else (1, result\<lparr>address := offset\<rparr>))"

definition phdr_symfind_callback ::
  "elf_env \<Rightarrow> dl_phdr_info \<Rightarrow> symbol_query \<Rightarrow> c_int \<times> symbol_query" where
  "phdr_symfind_callback E info result =
     (let visited = maps_visited result;
          result1 = result\<lparr>maps_visited := visited + 1\<rparr>
      in if visited \<noteq> 0 \<and> dlpi_name info = [] then (0, result1)
         else if strstr (dlpi_name info) ''linux-vdso.so.1'' then (0, result1)
         else symfind_segments E info (dlpi_phdr info) result1)"

text \<open>
  Modelled from the spec: the driver of the callback is in \<^verbatim>\<open>hooks.h\<close>. It starts
  the enumeration with a query that has visited no map and holds the null address, and
  reads the address back; null is "not found".
\<close>

definition run_symbol_query :: "elf_env \<Rightarrow> string \<Rightarrow> dl_phdr_info list \<Rightarrow> c_int \<times> symbol_query" where
  "run_symbol_query E name mods =
     dl_iterate_phdr (phdr_symfind_callback E) mods
       \<lparr>maps_visited = 0, symbol_name = name, address = 0\<rparr>"

definition findSymbol :: "elf_env \<Rightarrow> string \<Rightarrow> dl_phdr_info list \<Rightarrow> Addr option" where
  "findSymbol E name mods =
     (let a = address (snd (run_symbol_query E name mods))
      in if a = 0 then None else Some a)"

section \<open>Patching (elf-shenanigans.cpp)\<close>

text \<open>The lines the patcher writes to the log, by message.\<close>

datatype log_line =
    Could_not_prepare string     \<comment> \<open>WARNING: Could not prepare the memory page for symbol ...\<close>
  | Intercepted string           \<comment> \<open>DEBUG: ... intercepted!\<close>
  | Patching_RELS                \<comment> \<open>DEBUG: Patching symbols with RELS relocation type\<close>
  | Patching_RELAS               \<comment> \<open>DEBUG: Patching symbols with RELAS relocation type\<close>
  | Patching_JMPRELS             \<comment> \<open>DEBUG: Patching symbols with JMPRELS relocation type\<close>
  | Patching_symbols_for string  \<comment> \<open>INFO: Patching symbols for ...\<close>

text \<open>
  The state the patcher works on: the process memory read as pointer-sized cells (a
  relocation slot is one cell), the function-local static set \<^verbatim>\<open>patched\<close> of
  \<^verbatim>\<open>phdrs_callback\<close>, and the log.
\<close>

record pstate =
  memory :: "Addr \<Rightarrow> Addr"
  patched :: "string set"
  log :: "log_line list"

definition LOG :: "log_line \<Rightarrow> pstate \<Rightarrow> pstate" where
  "LOG line s = s\<lparr>log := log s @ [line]\<rparr>"

definition unprotect_page :: "elf_env \<Rightarrow> Addr \<Rightarrow> c_int" where
  "unprotect_page E addr =
     mprotect E (addr AND NOT (page_len E - 1)) (page_len E) (PROT_READ OR PROT_WRITE)"

text \<open>
  \<^verbatim>\<open>patch_symbol\<close> where the store takes effect, that is, on a page that can be
  written when the store executes. The section on page permissions has the function
  with the store that can fault, and the lemma that the two agree on a writable page.
\<close>

definition patch_symbol :: "elf_env \<Rightarrow> hook \<Rightarrow> string \<Rightarrow> Addr \<Rightarrow> bool \<Rightarrow> pstate \<Rightarrow> pstate" where
  "patch_symbol E h symname addr restore_original s =
     (let s1 = (if sint (unprotect_page E addr) < 0 then LOG (Could_not_prepare symname) s
                else s);
          s2 = s1\<lparr>memory := (memory s1)
                  (addr := (if restore_original then d_original E h else intercept E h))\<rparr>
      in LOG (Intercepted symname) s2)"

text \<open>
  The chain of \<^verbatim>\<open>TRY_HOOK\<close> lines: the first hook, in the order of the chain, whose
  symbol compares equal to the relocation's symbol name.
\<close>

definition hook_chain :: "hook list" where
  "hook_chain =
     [Malloc, Free, Calloc, Realloc, Posix_memalign, Memalign, Valloc, Pvalloc,
      Dlopen, Dlclose, Mmap, Mmap64, Munmap, PyGILState_Ensure]"

definition TRY_HOOK :: "string \<Rightarrow> hook option" where
  "TRY_HOOK symname = find (\<lambda>h. d_symbol h = symname) hook_chain"

fun overwrite_elf_table ::
  "elf_env \<Rightarrow> relocation list \<Rightarrow> (64 word \<Rightarrow> string) \<Rightarrow> Addr \<Rightarrow> bool \<Rightarrow> pstate \<Rightarrow> pstate" where
  "overwrite_elf_table E [] symbols base_addr restore_original s = s"
| "overwrite_elf_table E (rel # rest) symbols base_addr restore_original s =
     (let index = ELF_R_SYM (r_info rel);
          symname = symbols index;
          symbol_addr = r_offset rel + base_addr
      in overwrite_elf_table E rest symbols base_addr restore_original
           (case TRY_HOOK symname of
              Some h \<Rightarrow> patch_symbol E h symname symbol_addr restore_original s
            | None \<Rightarrow> s))"

definition patch_symbols :: "elf_env \<Rightarrow> Addr \<Rightarrow> Addr \<Rightarrow> bool \<Rightarrow> pstate \<Rightarrow> pstate" where
  "patch_symbols E dyn_info_struct base restore_original s =
     (let symbols = getSymbolNameByIndex E base dyn_info_struct;
          s1 = overwrite_elf_table E (RelTable E dyn_info_struct) symbols base restore_original
                 (LOG Patching_RELS s);
          s2 = overwrite_elf_table E (RelaTable E dyn_info_struct) symbols base restore_original
                 (LOG Patching_RELAS s1)
      in overwrite_elf_table E (JmprelTable E dyn_info_struct) symbols base restore_original
           (LOG Patching_JMPRELS s2))"

text \<open>The loop over the program headers inside \<^verbatim>\<open>phdrs_callback\<close>.\<close>

fun patch_segments :: "elf_env \<Rightarrow> dl_phdr_info \<Rightarrow> bool \<Rightarrow> phdr list \<Rightarrow> pstate \<Rightarrow> pstate" where
  "patch_segments E info restore_original [] s = s"
| "patch_segments E info restore_original (ph # rest) s =
     patch_segments E info restore_original rest
       (if p_type ph \<noteq> PT_DYNAMIC then s
        else patch_symbols E (p_vaddr ph + dlpi_addr info) (dlpi_addr info) restore_original s)"

text \<open>The test that keeps the dynamic linker and the vDSO from being patched.\<close>

definition excluded :: "string \<Rightarrow> bool" where
  "excluded name \<longleftrightarrow> strstr name ''/ld-linux'' \<or> strstr name ''linux-vdso.so.1''"

definition phdrs_callback :: "elf_env \<Rightarrow> bool \<Rightarrow> dl_phdr_info \<Rightarrow> pstate \<Rightarrow> c_int \<times> pstate" where
  "phdrs_callback E restore_original info s =
     (if \<not> restore_original \<and> dlpi_name info \<in> patched s then (0, s)
      else let s1 = (if restore_original then s\<lparr>patched := {}\<rparr>
                     else s\<lparr>patched := insert (dlpi_name info) (patched s)\<rparr>)
           in if excluded (dlpi_name info) then (0, s1)
              else (0, patch_segments E info restore_original (dlpi_phdr info)
                         (LOG (Patching_symbols_for (dlpi_name info)) s1)))"

definition overwrite_symbols :: "elf_env \<Rightarrow> dl_phdr_info list \<Rightarrow> pstate \<Rightarrow> pstate" where
  "overwrite_symbols E mods s = snd (dl_iterate_phdr (phdrs_callback E False) mods s)"

definition restore_symbols :: "elf_env \<Rightarrow> dl_phdr_info list \<Rightarrow> pstate \<Rightarrow> pstate" where
  "restore_symbols E mods s = snd (dl_iterate_phdr (phdrs_callback E True) mods s)"

section \<open>Page permissions\<close>

text \<open>
  \<open>patch_symbol\<close> above describes the store on a page that can be written, where it
  always takes effect; the sweeps are built on it and describe a sweep that runs to its
  end. The store is a raw write through a pointer, though, and the hardware refuses it
  on a page that is not writable: the process then receives \<^verbatim>\<open>SIGSEGV\<close> and
  \<^verbatim>\<open>patch_symbol\<close> does not return. The definitions below add the set of writable
  pages to the state. A relocation slot is pointer-aligned and the page length is a
  multiple of the pointer size, so a slot lies in one page: the page
  \<^verbatim>\<open>unprotect_page\<close> computes for it.
\<close>

definition memory_page :: "elf_env \<Rightarrow> Addr \<Rightarrow> Addr" where
  "memory_page E addr = addr AND NOT (page_len E - 1)"

record process =
  core :: pstate
  writable :: "Addr set"

text \<open>
  How a call ends: it returns, or the process is killed by the signal. Either way the
  state reached is kept.
\<close>

datatype outcome = Returns (state_of: process) | SIGSEGV (state_of: process)

text \<open>
  \<^verbatim>\<open>mprotect(page, page_len, PROT_READ | PROT_WRITE)\<close> makes the page readable and
  writable when it returns 0 and changes nothing otherwise.
\<close>

definition unprotect_page_paged :: "elf_env \<Rightarrow> Addr \<Rightarrow> process \<Rightarrow> c_int \<times> process" where
  "unprotect_page_paged E addr p =
     (let ret = unprotect_page E addr
      in (ret, if ret = 0 then p\<lparr>writable := insert (memory_page E addr) (writable p)\<rparr>
               else p))"

text \<open>\<^verbatim>\<open>*typedAddr = value\<close> on a process with page permissions.\<close>

definition store_slot :: "elf_env \<Rightarrow> Addr \<Rightarrow> Addr \<Rightarrow> process \<Rightarrow> outcome" where
  "store_slot E addr v p =
     (if memory_page E addr \<in> writable p
      then Returns (p\<lparr>core := (core p)\<lparr>memory := (memory (core p))(addr := v)\<rparr>\<rparr>)
      else SIGSEGV p)"

text \<open>\<^verbatim>\<open>patch_symbol\<close>, statement by statement, on a process with page permissions.\<close>

definition patch_symbol_paged ::
  "elf_env \<Rightarrow> hook \<Rightarrow> string \<Rightarrow> Addr \<Rightarrow> bool \<Rightarrow> process \<Rightarrow> outcome" where
  "patch_symbol_paged E h symname addr restore_original p =
     (case unprotect_page_paged E addr p of
        (ret, p1) \<Rightarrow>
          (let p2 = (if sint ret < 0
                     then p1\<lparr>core := LOG (Could_not_prepare symname) (core p1)\<rparr>
                     else p1)
           in case store_slot E addr
                     (if restore_original then d_original E h else intercept E h) p2 of
                SIGSEGV p3 \<Rightarrow> SIGSEGV p3
              | Returns p3 \<Rightarrow> Returns (p3\<lparr>core := LOG (Intercepted symname) (core p3)\<rparr>)))"

section \<open>The relocation slots a sweep writes\<close>

text \<open>
  The notions the properties of the patcher are stated with. \<open>slot_value\<close> is the
  pointer \<^verbatim>\<open>patch_symbol\<close> stores, by direction.
\<close>

definition slot_value :: "elf_env \<Rightarrow> bool \<Rightarrow> hook \<Rightarrow> Addr" where
  "slot_value E restore_original h = (if restore_original then d_original E h else intercept E h)"

text \<open>
  The matched entries of a relocation table, in table order: the slot address
  (\<^verbatim>\<open>r_offset + base_addr\<close>) with the hook whose symbol the entry names.
\<close>

fun table_slots :: "relocation list \<Rightarrow> (64 word \<Rightarrow> string) \<Rightarrow> Addr \<Rightarrow> (Addr \<times> hook) list" where
  "table_slots [] symbols base_addr = []"
| "table_slots (rel # rest) symbols base_addr =
     (case TRY_HOOK (symbols (ELF_R_SYM (r_info rel))) of
        Some h \<Rightarrow> (r_offset rel + base_addr, h) # table_slots rest symbols base_addr
      | None \<Rightarrow> table_slots rest symbols base_addr)"

text \<open>
  The matched entries of one dynamic section (the three tables in the order
  \<^verbatim>\<open>patch_symbols\<close> walks them), of a list of program headers, and of a module.
\<close>

definition dyn_slots :: "elf_env \<Rightarrow> Addr \<Rightarrow> Addr \<Rightarrow> (Addr \<times> hook) list" where
  "dyn_slots E dyn base =
     (let symbols = getSymbolNameByIndex E base dyn
      in table_slots (RelTable E dyn) symbols base @
         table_slots (RelaTable E dyn) symbols base @
         table_slots (JmprelTable E dyn) symbols base)"

definition segment_slots :: "elf_env \<Rightarrow> dl_phdr_info \<Rightarrow> phdr list \<Rightarrow> (Addr \<times> hook) list" where
  "segment_slots E info phs =
     concat (map (\<lambda>ph. dyn_slots E (p_vaddr ph + dlpi_addr info) (dlpi_addr info))
               (filter (\<lambda>ph. p_type ph = PT_DYNAMIC) phs))"

definition module_slots :: "elf_env \<Rightarrow> dl_phdr_info \<Rightarrow> (Addr \<times> hook) list" where
  "module_slots E info = segment_slots E info (dlpi_phdr info)"

text \<open>Storing \<open>v h\<close> at each slot of a list, first to last.\<close>

fun write_slots :: "(hook \<Rightarrow> Addr) \<Rightarrow> (Addr \<times> hook) list \<Rightarrow> (Addr \<Rightarrow> Addr) \<Rightarrow> Addr \<Rightarrow> Addr" where
  "write_slots v [] m = m"
| "write_slots v ((a, h) # ws) m = write_slots v ws (m(a := v h))"

text \<open>The modules of an enumeration that are not excluded.\<close>

definition scanned :: "dl_phdr_info list \<Rightarrow> dl_phdr_info list" where
  "scanned mods = filter (\<lambda>info. \<not> excluded (dlpi_name info)) mods"

text \<open>
  The modules an overwrite sweep does not skip: those whose path is not in the patched
  set when their turn comes.
\<close>

fun fresh_modules :: "string set \<Rightarrow> dl_phdr_info list \<Rightarrow> dl_phdr_info list" where
  "fresh_modules P [] = []"
| "fresh_modules P (info # rest) =
     (if dlpi_name info \<in> P then fresh_modules P rest
      else info # fresh_modules (insert (dlpi_name info) P) rest)"

text \<open>What \<^verbatim>\<open>phdrs_callback\<close> does after its bookkeeping of the patched set.\<close>

definition scan :: "elf_env \<Rightarrow> bool \<Rightarrow> dl_phdr_info \<Rightarrow> pstate \<Rightarrow> pstate" where
  "scan E r info s =
     (if excluded (dlpi_name info) then s
      else patch_segments E info r (dlpi_phdr info)
             (LOG (Patching_symbols_for (dlpi_name info)) s))"

section \<open>The modules the symbol finder reads\<close>

definition is_vdso :: "dl_phdr_info \<Rightarrow> bool" where
  "is_vdso info \<longleftrightarrow> strstr (dlpi_name info) ''linux-vdso.so.1''"

text \<open>
  The address a module resolves a name to: the first non-zero answer of the symbol
  tables of its \<^verbatim>\<open>PT_DYNAMIC\<close> program headers, in header order.
\<close>

definition segment_symbol :: "elf_env \<Rightarrow> string \<Rightarrow> dl_phdr_info \<Rightarrow> phdr list \<Rightarrow> Addr option" where
  "segment_symbol E name info phs =
     (case filter (\<lambda>a. a \<noteq> 0)
             (map (\<lambda>ph. getSymbolAddress E (dlpi_addr info) (p_vaddr ph + dlpi_addr info) name)
                (filter (\<lambda>ph. p_type ph = PT_DYNAMIC) phs)) of
        [] \<Rightarrow> None
      | a # _ \<Rightarrow> Some a)"

definition module_symbol :: "elf_env \<Rightarrow> string \<Rightarrow> dl_phdr_info \<Rightarrow> Addr option" where
  "module_symbol E name info = segment_symbol E name info (dlpi_phdr info)"

text \<open>The first address a list of modules resolves a name to.\<close>

fun first_resolved :: "elf_env \<Rightarrow> string \<Rightarrow> dl_phdr_info list \<Rightarrow> Addr option" where
  "first_resolved E name [] = None"
| "first_resolved E name (info # rest) =
     (case module_symbol E name info of
        Some a \<Rightarrow> Some a
      | None \<Rightarrow> first_resolved E name rest)"

text \<open>
  The modules the callback reads symbols of. After the first callback the counter
  \<^verbatim>\<open>maps_visited\<close> is non-zero, so a later module is read when its path is not
  empty and it is not the vDSO; the first module enumerated is read unless it is the
  vDSO.
\<close>

definition later_visited :: "dl_phdr_info list \<Rightarrow> dl_phdr_info list" where
  "later_visited mods =
     filter (\<lambda>info. \<not> is_vdso info) (filter (\<lambda>info. dlpi_name info \<noteq> []) mods)"

definition visited_modules :: "dl_phdr_info list \<Rightarrow> dl_phdr_info list" where
  "visited_modules mods =
     filter (\<lambda>info. \<not> is_vdso info) (take 1 mods) @ later_visited (drop 1 mods)"

text \<open>
  The specification's wording of the same choice: the vDSO is skipped, and of the
  modules with an empty path the first occurrence is read and the later ones are not.
  \<open>seen_empty\<close> tells whether an empty path has occurred already.
\<close>

fun spec_visited :: "bool \<Rightarrow> dl_phdr_info list \<Rightarrow> dl_phdr_info list" where
  "spec_visited seen_empty [] = []"
| "spec_visited seen_empty (info # rest) =
     (if dlpi_name info = [] then
        (if seen_empty then spec_visited True rest else info # spec_visited True rest)
      else if is_vdso info then spec_visited seen_empty rest
      else info # spec_visited seen_empty rest)"

definition spec_findSymbol :: "elf_env \<Rightarrow> string \<Rightarrow> dl_phdr_info list \<Rightarrow> Addr option" where
  "spec_findSymbol E name mods = first_resolved E name (spec_visited False mods)"

section \<open>A concrete process\<close>

text \<open>
  Four loaded modules: the executable (empty path), a C library, the dynamic linker
  and the vDSO. The executable calls malloc, puts and free through its procedure
  linkage table; the C library reaches malloc through a global-offset-table entry; the
  dynamic linker has a malloc entry as well. The page of the C library's entry cannot
  be made writable. The executable defines \<^verbatim>\<open>PyGILState_Ensure\<close>, the C library
  malloc and free.
\<close>

definition exe_module :: dl_phdr_info where
  "exe_module =
     \<lparr>dlpi_addr = 0x400000, dlpi_name = [],
      dlpi_phdr = [\<lparr>p_type = 1, p_vaddr = 0\<rparr>, \<lparr>p_type = 2, p_vaddr = 0x3E00\<rparr>]\<rparr>"

definition libc_module :: dl_phdr_info where
  "libc_module =
     \<lparr>dlpi_addr = 0x10000000, dlpi_name = ''/lib64/libc.so.6'',
      dlpi_phdr = [\<lparr>p_type = 2, p_vaddr = 0x1E00\<rparr>]\<rparr>"

definition ld_module :: dl_phdr_info where
  "ld_module =
     \<lparr>dlpi_addr = 0x20000000, dlpi_name = ''/lib64/ld-linux-x86-64.so.2'',
      dlpi_phdr = [\<lparr>p_type = 2, p_vaddr = 0x2E00\<rparr>]\<rparr>"

definition vdso_module :: dl_phdr_info where
  "vdso_module =
     \<lparr>dlpi_addr = 0x30000000, dlpi_name = ''linux-vdso.so.1'',
      dlpi_phdr = [\<lparr>p_type = 2, p_vaddr = 0x3E0\<rparr>]\<rparr>"

definition demo_modules :: "dl_phdr_info list" where
  "demo_modules = [exe_module, libc_module, ld_module, vdso_module]"

definition demo_env :: elf_env where
  "demo_env =
     \<lparr>d_original = (\<lambda>h. if h = Malloc then 0x100A0000 else if h = Free then 0x100A1000
                         else if h = PyGILState_Ensure then 0x4A0000 else 0x100B0000),
      intercept = (\<lambda>h. if h = Malloc then 0x50001000 else if h = Free then 0x50002000
                        else 0x50003000),
      page_len = 4096,
      mprotect = (\<lambda>page len prot. if page = 0x10003000 then - 1 else 0),
      RelTable = (\<lambda>dyn. []),
      RelaTable = (\<lambda>dyn. if dyn = 0x10001E00 then [\<lparr>r_offset = 0x3FD8, r_info = 0x100000006\<rparr>]
                          else []),
      JmprelTable = (\<lambda>dyn.
         if dyn = 0x403E00
         then [\<lparr>r_offset = 0x4018, r_info = 0x100000007\<rparr>,
               \<lparr>r_offset = 0x4020, r_info = 0x300000007\<rparr>,
               \<lparr>r_offset = 0x4028, r_info = 0x200000007\<rparr>]
         else if dyn = 0x20002E00 then [\<lparr>r_offset = 0x4018, r_info = 0x100000007\<rparr>]
         else []),
      getSymbolNameByIndex = (\<lambda>base dyn index.
         if index = 1 then ''malloc'' else if index = 2 then ''free''
         else if index = 3 then ''puts'' else []),
      getSymbolAddress = (\<lambda>base dyn name.
         if dyn = 0x10001E00 \<and> name = ''malloc'' then 0x100A0000
         else if dyn = 0x10001E00 \<and> name = ''free'' then 0x100A1000
         else if dyn = 0x403E00 \<and> name = ''PyGILState_Ensure'' then 0x4A0000
         else 0)\<rparr>"

text \<open>
  Two memories: one in which every matched slot already holds the real function (the
  linker has bound the symbols), one in which the executable's slots still point into
  its own procedure linkage table (lazy binding).
\<close>

definition bound_state :: pstate where
  "bound_state =
     \<lparr>memory = (\<lambda>a. if a = 0x404018 \<or> a = 0x10003FD8 then 0x100A0000
                    else if a = 0x404028 then 0x100A1000 else 0),
      patched = {}, log = []\<rparr>"

definition lazy_state :: pstate where
  "lazy_state =
     \<lparr>memory = (\<lambda>a. if a = 0x404018 then 0x401036 else if a = 0x10003FD8 then 0x100A0000
                    else if a = 0x404028 then 0x401056 else 0),
      patched = {}, log = []\<rparr>"

text \<open>
  Two processes on the bound memory. In both the page of the executable's slots is
  writable. The page of the C library's malloc slot, the one whose permission cannot be
  changed, is read-only in the first and writable in the second.
\<close>

definition relro_process :: process where
  "relro_process = \<lparr>core = bound_state, writable = {0x404000}\<rparr>"

definition open_process :: process where
  "open_process = \<lparr>core = bound_state, writable = {0x404000, 0x10003000}\<rparr>"

section \<open>Properties of the trampolines\<close>

text \<open>
  Claim C3. A call of the realloc trampoline with a resolved hook returns what the real
  realloc returns. When that is non-null the trace grows by the real call, then one
  deallocation event for the old pointer with size 0, then one allocation event for the
  returned pointer with the requested size, and nothing else; when it is null the trace
  grows by the real call alone.
\<close>

theorem realloc_events:
  assumes "resolved L Realloc"
    and "orig_realloc L ptr size' (world s) = (ret, w')"
  shows "intercept_realloc L ptr size' s =
           Inr (ret, s\<lparr>world := w',
                         trace := trace s @ Original Realloc #
                           (if ret \<noteq> 0
                            then [trackDeallocation ptr 0 FREE, trackAllocation ret size' REALLOC]
                            else [])\<rparr>)"
  using assms by (simp add: intercept_realloc_def call_original_def notify_def)

theorem realloc_events_witness:
  "intercept_realloc working_libc 4096 64 \<lparr>world = 0, trace = []\<rparr> =
     Inr (8192, \<lparr>world = 1,
                 trace = [Original Realloc, trackDeallocation 4096 0 FREE,
                          trackAllocation 8192 64 REALLOC]\<rparr>)
   \<and> intercept_realloc failing_libc 4096 64 \<lparr>world = 0, trace = []\<rparr> =
     Inr (0, \<lparr>world = 1, trace = [Original Realloc]\<rparr>)"
proof -
  have ok: "resolved working_libc Realloc"
    and bad: "resolved failing_libc Realloc"
    by (simp_all add: working_libc_def failing_libc_def)
  have r1: "orig_realloc working_libc 4096 64 (world \<lparr>world = 0::nat, trace = []\<rparr>) = (8192, 1)"
    by (simp add: working_libc_def)
  have r2: "orig_realloc failing_libc 4096 64 (world \<lparr>world = 0::nat, trace = []\<rparr>) = (0, 1)"
    by (simp add: failing_libc_def)
  show ?thesis
    using realloc_events [OF ok r1] realloc_events [OF bad r2] by simp
qed

text \<open>
  Claim C4. With resolved hooks, the free trampoline appends the deallocation event
  (pointer, 0, FREE) to the trace and only then calls the real free, and the munmap
  trampoline appends the deallocation event (address, length, MUNMAP) and only then
  calls the real munmap, whose status it returns.
\<close>

theorem deallocation_event_before_real_call:
  assumes "resolved L Free" and "resolved L Munmap"
    and "orig_free L ptr (world s) = (u, w1)"
    and "orig_munmap L addr length' (world s) = (ret, w2)"
  shows "intercept_free L ptr s =
           Inr ((), s\<lparr>world := w1,
                        trace := trace s @ [trackDeallocation ptr 0 FREE, Original Free]\<rparr>)
       \<and> intercept_munmap L addr length' s =
           Inr (ret, s\<lparr>world := w2,
                         trace := trace s @ [trackDeallocation addr length' MUNMAP,
                                             Original Munmap]\<rparr>)"
  using assms
  by (simp add: intercept_free_def intercept_munmap_def call_original_def notify_def)

theorem deallocation_event_before_real_call_witness:
  "intercept_free working_libc 4096 \<lparr>world = 0, trace = []\<rparr> =
     Inr ((), \<lparr>world = 1, trace = [trackDeallocation 4096 0 FREE, Original Free]\<rparr>)
   \<and> intercept_munmap working_libc 8192 4096 \<lparr>world = 0, trace = []\<rparr> =
     Inr (0, \<lparr>world = 1, trace = [trackDeallocation 8192 4096 MUNMAP, Original Munmap]\<rparr>)"
proof -
  have a: "resolved working_libc Free" and b: "resolved working_libc Munmap"
    by (simp_all add: working_libc_def)
  have c: "orig_free working_libc 4096 (world \<lparr>world = 0::nat, trace = []\<rparr>) = ((), 1)"
    by (simp add: working_libc_def)
  have d: "orig_munmap working_libc 8192 4096 (world \<lparr>world = 0::nat, trace = []\<rparr>) = (0, 1)"
    by (simp add: working_libc_def)
  show ?thesis
    using deallocation_event_before_real_call [OF a b c d] by simp
qed

text \<open>
  Claim C7. With a resolved hook, the dlclose trampoline calls the real dlclose first,
  then flushes the native trace cache whatever the status, and last invalidates the
  module cache exactly when the status is 0; it returns the status.
\<close>

theorem dlclose_events:
  assumes "resolved L Dlclose"
    and "orig_dlclose L handle (world s) = (ret, w')"
  shows "intercept_dlclose L handle s =
           Inr (ret, s\<lparr>world := w',
                         trace := trace s @ [Original Dlclose, flushCache] @
                           (if ret = 0 then [invalidate_module_cache] else [])\<rparr>)"
  using assms by (simp add: intercept_dlclose_def call_original_def notify_def)

theorem dlclose_events_witness:
  "intercept_dlclose working_libc 4096 \<lparr>world = 0, trace = []\<rparr> =
     Inr (0, \<lparr>world = 1, trace = [Original Dlclose, flushCache, invalidate_module_cache]\<rparr>)
   \<and> intercept_dlclose failing_libc 4096 \<lparr>world = 0, trace = []\<rparr> =
     Inr (- 1, \<lparr>world = 1, trace = [Original Dlclose, flushCache]\<rparr>)"
proof -
  have ok: "resolved working_libc Dlclose" and bad: "resolved failing_libc Dlclose"
    by (simp_all add: working_libc_def failing_libc_def)
  have r1: "orig_dlclose working_libc 4096 (world \<lparr>world = 0::nat, trace = []\<rparr>) = (0, 1)"
    by (simp add: working_libc_def)
  have r2: "orig_dlclose failing_libc 4096 (world \<lparr>world = 0::nat, trace = []\<rparr>) = (- 1, 1)"
    by (simp add: failing_libc_def)
  show ?thesis
    using dlclose_events [OF ok r1] dlclose_events [OF bad r2] by simp
qed

text \<open>
  Claim C1 fails for three of the nine trampolines. In a C library where every request
  fails, the malloc trampoline still reports an allocation of the null pointer, and the
  mmap and mmap64 trampolines report an allocation at \<open>MAP_FAILED\<close>.
\<close>

theorem failed_allocation_still_notified:
  "intercept_malloc failing_libc 64 \<lparr>world = 0, trace = []\<rparr> =
     Inr (0, \<lparr>world = 1, trace = [Original Malloc, trackAllocation 0 64 MALLOC]\<rparr>)
   \<and> intercept_mmap failing_libc 0 4096 3 34 (- 1) 0 \<lparr>world = 0, trace = []\<rparr> =
     Inr (MAP_FAILED,
          \<lparr>world = 1, trace = [Original Mmap, trackAllocation MAP_FAILED 4096 MMAP]\<rparr>)
   \<and> intercept_mmap64 failing_libc 0 4096 3 34 (- 1) 0 \<lparr>world = 0, trace = []\<rparr> =
     Inr (MAP_FAILED,
          \<lparr>world = 1, trace = [Original Mmap64, trackAllocation MAP_FAILED 4096 MMAP]\<rparr>)"
  by (simp add: intercept_malloc_def intercept_mmap_def intercept_mmap64_def
      call_original_def notify_def failing_libc_def)

text \<open>
  The other allocate trampolines test the result: in the same library they emit nothing
  after the real call.
\<close>

lemma guarded_allocators_silent_on_failure:
  "intercept_calloc failing_libc 4 16 \<lparr>world = 0, trace = []\<rparr> =
     Inr (0, \<lparr>world = 1, trace = [Original Calloc]\<rparr>)
   \<and> intercept_posix_memalign failing_libc 4096 16 64 \<lparr>world = 0, trace = []\<rparr> =
     Inr (12, \<lparr>world = 1, trace = [Original Posix_memalign]\<rparr>)
   \<and> intercept_memalign failing_libc 16 64 \<lparr>world = 0, trace = []\<rparr> =
     Inr (0, \<lparr>world = 1, trace = [Original Memalign]\<rparr>)
   \<and> intercept_valloc failing_libc 64 \<lparr>world = 0, trace = []\<rparr> =
     Inr (0, \<lparr>world = 1, trace = [Original Valloc]\<rparr>)
   \<and> intercept_pvalloc failing_libc 64 \<lparr>world = 0, trace = []\<rparr> =
     Inr (0, \<lparr>world = 1, trace = [Original Pvalloc]\<rparr>)"
  by (simp add: intercept_calloc_def intercept_posix_memalign_def intercept_memalign_def
      intercept_valloc_def intercept_pvalloc_def call_original_def notify_def failing_libc_def)

section \<open>Properties of the patcher\<close>

subsection \<open>String search\<close>

lemma starts_with_iff: "starts_with hay needle \<longleftrightarrow> (\<exists>post. hay = needle @ post)"
  by (induction hay needle rule: starts_with.induct) auto

lemma strstr_iff: "strstr hay needle \<longleftrightarrow> (\<exists>pre post. hay = pre @ needle @ post)"
proof (induction hay)
  case Nil
  show ?case by auto
next
  case (Cons h hs)
  show ?case
  proof
    assume "strstr (h # hs) needle"
    then consider "starts_with (h # hs) needle" | "strstr hs needle" by auto
    then show "\<exists>pre post. h # hs = pre @ needle @ post"
    proof cases
      case 1
      then obtain post where "h # hs = needle @ post" by (auto simp: starts_with_iff)
      then have "h # hs = [] @ needle @ post" by simp
      then show ?thesis by blast
    next
      case 2
      with Cons obtain pre post where "hs = pre @ needle @ post" by auto
      then have "h # hs = (h # pre) @ needle @ post" by simp
      then show ?thesis by blast
    qed
  next
    assume "\<exists>pre post. h # hs = pre @ needle @ post"
    then obtain pre post where eq: "h # hs = pre @ needle @ post" by auto
    show "strstr (h # hs) needle"
    proof (cases pre)
      case Nil
      with eq have "starts_with (h # hs) needle" by (auto simp: starts_with_iff)
      then show ?thesis by simp
    next
      case (Cons p ps)
      with eq have "hs = ps @ needle @ post" by simp
      with Cons.IH have "strstr hs needle" by blast
      then show ?thesis by simp
    qed
  qed
qed

subsection \<open>Writing a list of slots\<close>

lemma write_slots_append:
  "write_slots v (xs @ ys) m = write_slots v ys (write_slots v xs m)"
  by (induction xs arbitrary: m) auto

lemma write_slots_other:
  "a \<notin> fst ` set ws \<Longrightarrow> write_slots v ws m a = m a"
  by (induction ws arbitrary: m) auto

lemma write_slots_restored:
  "\<forall>(a, h) \<in> set ws. M a = v h \<Longrightarrow> a \<in> fst ` set ws \<Longrightarrow> write_slots v ws m a = M a"
proof (induction ws arbitrary: m)
  case Nil
  then show ?case by simp
next
  case (Cons w ws)
  obtain a' h' where w: "w = (a', h')" by (cases w)
  show ?case
  proof (cases "a \<in> fst ` set ws")
    case True
    with Cons w show ?thesis by simp
  next
    case False
    with Cons.prems w have "a = a'" by auto
    with Cons.prems w False show ?thesis by (simp add: write_slots_other)
  qed
qed

lemma slot_value_simps:
  "slot_value E True = d_original E" "slot_value E False = intercept E"
  by (simp_all add: slot_value_def fun_eq_iff)

subsection \<open>One slot, one table, one module\<close>

lemma patch_symbol_memory:
  "memory (patch_symbol E h symname addr r s) = (memory s)(addr := slot_value E r h)"
  by (simp add: patch_symbol_def LOG_def slot_value_def Let_def)

lemma patch_symbol_patched:
  "patched (patch_symbol E h symname addr r s) = patched s"
  by (simp add: patch_symbol_def LOG_def Let_def)

lemma patch_symbol_log:
  "log (patch_symbol E h symname addr r s) =
     log s @ (if sint (unprotect_page E addr) < 0 then [Could_not_prepare symname] else [])
           @ [Intercepted symname]"
  by (simp add: patch_symbol_def LOG_def Let_def)

lemma patch_symbol_set_patched:
  "patch_symbol E h symname addr r (s\<lparr>patched := P\<rparr>) =
     (patch_symbol E h symname addr r s)\<lparr>patched := P\<rparr>"
  by (simp add: patch_symbol_def LOG_def Let_def)

lemma overwrite_elf_table_memory:
  "memory (overwrite_elf_table E t symbols base r s) =
     write_slots (slot_value E r) (table_slots t symbols base) (memory s)"
  by (induction t arbitrary: s) (auto simp: patch_symbol_memory Let_def split: option.splits)

lemma overwrite_elf_table_patched:
  "patched (overwrite_elf_table E t symbols base r s) = patched s"
  by (induction t arbitrary: s) (auto simp: patch_symbol_patched Let_def split: option.splits)

lemma overwrite_elf_table_count:
  "count_list (log (overwrite_elf_table E t symbols base r s)) (Patching_symbols_for n) =
     count_list (log s) (Patching_symbols_for n)"
  by (induction t arbitrary: s) (auto simp: patch_symbol_log Let_def split: option.splits)

lemma overwrite_elf_table_set_patched:
  "overwrite_elf_table E t symbols base r (s\<lparr>patched := P\<rparr>) =
     (overwrite_elf_table E t symbols base r s)\<lparr>patched := P\<rparr>"
  by (induction t arbitrary: s) (auto simp: patch_symbol_set_patched Let_def split: option.splits)

lemma LOG_set_patched: "LOG l (s\<lparr>patched := P\<rparr>) = (LOG l s)\<lparr>patched := P\<rparr>"
  by (simp add: LOG_def)

lemma patch_symbols_memory:
  "memory (patch_symbols E dyn base r s) =
     write_slots (slot_value E r) (dyn_slots E dyn base) (memory s)"
  by (simp add: patch_symbols_def dyn_slots_def Let_def overwrite_elf_table_memory
      write_slots_append LOG_def)

lemma patch_symbols_patched:
  "patched (patch_symbols E dyn base r s) = patched s"
  by (simp add: patch_symbols_def Let_def overwrite_elf_table_patched LOG_def)

lemma patch_symbols_count:
  "count_list (log (patch_symbols E dyn base r s)) (Patching_symbols_for n) =
     count_list (log s) (Patching_symbols_for n)"
  by (simp add: patch_symbols_def Let_def overwrite_elf_table_count LOG_def)

lemma patch_symbols_set_patched:
  "patch_symbols E dyn base r (s\<lparr>patched := P\<rparr>) = (patch_symbols E dyn base r s)\<lparr>patched := P\<rparr>"
  by (simp add: patch_symbols_def Let_def overwrite_elf_table_set_patched LOG_set_patched)

lemma patch_segments_memory:
  "memory (patch_segments E info r phs s) =
     write_slots (slot_value E r) (segment_slots E info phs) (memory s)"
  by (induction phs arbitrary: s)
     (auto simp: segment_slots_def patch_symbols_memory write_slots_append)

lemma patch_segments_patched:
  "patched (patch_segments E info r phs s) = patched s"
  by (induction phs arbitrary: s) (auto simp: patch_symbols_patched)

lemma patch_segments_count:
  "count_list (log (patch_segments E info r phs s)) (Patching_symbols_for n) =
     count_list (log s) (Patching_symbols_for n)"
  by (induction phs arbitrary: s) (auto simp: patch_symbols_count)

lemma patch_segments_set_patched:
  "patch_segments E info r phs (s\<lparr>patched := P\<rparr>) = (patch_segments E info r phs s)\<lparr>patched := P\<rparr>"
  by (induction phs arbitrary: s) (auto simp: patch_symbols_set_patched)

lemma scan_set_patched: "scan E r info (s\<lparr>patched := P\<rparr>) = (scan E r info s)\<lparr>patched := P\<rparr>"
  by (simp add: scan_def patch_segments_set_patched LOG_set_patched)

lemma scan_cong:
  fixes s1 s2 :: pstate
  assumes "memory s1 = memory s2" and "log s1 = log s2"
  shows "memory (scan E r info s1) = memory (scan E r info s2)
       \<and> log (scan E r info s1) = log (scan E r info s2)"
proof -
  from assms have "s1 = s2\<lparr>patched := patched s1\<rparr>" by simp
  then have "scan E r info s1 = (scan E r info s2)\<lparr>patched := patched s1\<rparr>"
    using scan_set_patched [where s = s2 and P = "patched s1"] by simp
  then show ?thesis by (metis pstate.select_convs pstate.surjective pstate.update_convs(2))
qed

subsection \<open>The callback and the two sweeps\<close>

lemma phdrs_callback_fst: "fst (phdrs_callback E r info s) = 0"
  by (simp add: phdrs_callback_def Let_def)

lemma sweep_Cons:
  "snd (dl_iterate_phdr (phdrs_callback E r) (info # rest) s) =
     snd (dl_iterate_phdr (phdrs_callback E r) rest (snd (phdrs_callback E r info s)))"
  using phdrs_callback_fst [of E r info s]
  by (cases "phdrs_callback E r info s") simp

lemma phdrs_callback_memory:
  "memory (snd (phdrs_callback E r info s)) =
     (if (\<not> r \<and> dlpi_name info \<in> patched s) \<or> excluded (dlpi_name info) then memory s
      else write_slots (slot_value E r) (module_slots E info) (memory s))"
  by (simp add: phdrs_callback_def Let_def patch_segments_memory module_slots_def LOG_def)

lemma phdrs_callback_patched:
  "patched (snd (phdrs_callback E r info s)) =
     (if r then {} else insert (dlpi_name info) (patched s))"
  by (auto simp: phdrs_callback_def Let_def patch_segments_patched LOG_def)

lemma phdrs_callback_count:
  "count_list (log (snd (phdrs_callback E r info s))) (Patching_symbols_for n) =
     count_list (log s) (Patching_symbols_for n) +
     (if (\<not> r \<and> dlpi_name info \<in> patched s) \<or> excluded (dlpi_name info) then 0
      else if dlpi_name info = n then 1 else 0)"
  by (simp add: phdrs_callback_def Let_def patch_segments_count LOG_def)

lemma phdrs_callback_scan:
  "snd (phdrs_callback E r info s) =
     (if \<not> r \<and> dlpi_name info \<in> patched s then s
      else (scan E r info s)\<lparr>patched := (if r then {} else insert (dlpi_name info) (patched s))\<rparr>)"
  by (simp add: phdrs_callback_def scan_def Let_def patch_segments_set_patched LOG_set_patched)

lemma restore_symbols_memory:
  "memory (restore_symbols E mods s) =
     write_slots (d_original E) (concat (map (module_slots E) (scanned mods))) (memory s)"
  unfolding restore_symbols_def
proof (induction mods arbitrary: s)
  case Nil
  show ?case by (simp add: scanned_def)
next
  case (Cons info rest)
  show ?case
    by (simp only: sweep_Cons Cons.IH)
       (simp add: phdrs_callback_memory scanned_def write_slots_append slot_value_simps)
qed

lemma overwrite_symbols_memory:
  "memory (overwrite_symbols E mods s) =
     write_slots (intercept E)
       (concat (map (module_slots E) (scanned (fresh_modules (patched s) mods)))) (memory s)"
  unfolding overwrite_symbols_def
proof (induction mods arbitrary: s)
  case Nil
  show ?case by (simp add: scanned_def)
next
  case (Cons info rest)
  show ?case
    by (simp only: sweep_Cons Cons.IH)
       (simp add: phdrs_callback_memory phdrs_callback_patched scanned_def write_slots_append
          slot_value_simps insert_absorb)
qed

lemma overwrite_symbols_patched:
  "patched (overwrite_symbols E mods s) = patched s \<union> dlpi_name ` set mods"
  unfolding overwrite_symbols_def
proof (induction mods arbitrary: s)
  case Nil
  show ?case by simp
next
  case (Cons info rest)
  show ?case
    by (simp only: sweep_Cons Cons.IH) (simp add: phdrs_callback_patched)
qed

lemma restore_symbols_patched:
  "mods \<noteq> [] \<Longrightarrow> patched (restore_symbols E mods s) = {}"
  unfolding restore_symbols_def
proof (induction mods arbitrary: s)
  case Nil
  then show ?case by simp
next
  case (Cons info rest)
  show ?case
  proof (cases rest)
    case Nil
    then show ?thesis by (simp only: sweep_Cons) (simp add: phdrs_callback_patched)
  next
    case (Cons a list)
    with Cons.IH show ?thesis by (simp only: sweep_Cons) simp
  qed
qed

lemma overwrite_symbols_count:
  "count_list (log (overwrite_symbols E mods s)) (Patching_symbols_for n) =
     count_list (log s) (Patching_symbols_for n) +
     (if n \<notin> patched s \<and> \<not> excluded n \<and> n \<in> dlpi_name ` set mods then 1 else 0)"
  unfolding overwrite_symbols_def
proof (induction mods arbitrary: s)
  case Nil
  show ?case by simp
next
  case (Cons info rest)
  show ?case
    by (simp only: sweep_Cons Cons.IH)
       (auto simp: phdrs_callback_count phdrs_callback_patched)
qed

lemma fresh_modules_subset: "set (fresh_modules P mods) \<subseteq> set mods"
  by (induction mods arbitrary: P) auto

lemma slots_subset:
  "fst ` set (concat (map (module_slots E) (scanned (fresh_modules P mods))))
     \<subseteq> fst ` set (concat (map (module_slots E) (scanned mods)))"
  using fresh_modules_subset [of P mods] by (auto simp: scanned_def)

lemma overwrite_symbols_skip_all:
  "dlpi_name ` set mods \<subseteq> patched s \<Longrightarrow> overwrite_symbols E mods s = s"
  unfolding overwrite_symbols_def
proof (induction mods)
  case Nil
  show ?case by simp
next
  case (Cons info rest)
  then have "snd (phdrs_callback E False info s) = s"
    by (simp add: phdrs_callback_def)
  with Cons show ?case by (simp only: sweep_Cons) simp
qed

lemma sweep_scanned:
  fixes s1 s2 :: pstate
  assumes "memory s1 = memory s2" and "log s1 = log s2"
    and "\<not> r \<Longrightarrow> \<forall>n. \<not> excluded n \<longrightarrow> (n \<in> patched s1 \<longleftrightarrow> n \<in> patched s2)"
  shows "memory (snd (dl_iterate_phdr (phdrs_callback E r) mods s1)) =
           memory (snd (dl_iterate_phdr (phdrs_callback E r) (scanned mods) s2))
       \<and> log (snd (dl_iterate_phdr (phdrs_callback E r) mods s1)) =
           log (snd (dl_iterate_phdr (phdrs_callback E r) (scanned mods) s2))"
  using assms
proof (induction mods arbitrary: s1 s2)
  case Nil
  then show ?case by (simp add: scanned_def)
next
  case (Cons info rest)
  let ?t1 = "snd (phdrs_callback E r info s1)"
  show ?case
  proof (cases "excluded (dlpi_name info)")
    case True
    have m: "memory ?t1 = memory s2" and l: "log ?t1 = log s2"
      using True Cons.prems(1,2) by (simp_all add: phdrs_callback_scan scan_def)
    have p: "\<forall>n. \<not> excluded n \<longrightarrow> (n \<in> patched ?t1 \<longleftrightarrow> n \<in> patched s2)" if "\<not> r"
      using that True Cons.prems(3) by (auto simp: phdrs_callback_patched)
    have sc: "scanned (info # rest) = scanned rest"
      using True by (simp add: scanned_def)
    show ?thesis
      unfolding sc sweep_Cons using Cons.IH [OF m l p] by simp
  next
    case False
    let ?t2 = "snd (phdrs_callback E r info s2)"
    have same: "dlpi_name info \<in> patched s1 \<longleftrightarrow> dlpi_name info \<in> patched s2" if "\<not> r"
      using that False Cons.prems(3) by simp
    have ml: "memory ?t1 = memory ?t2 \<and> log ?t1 = log ?t2"
      using same scan_cong [OF Cons.prems(1,2), of E r info] Cons.prems(1,2)
      by (cases r) (simp_all add: phdrs_callback_scan)
    have p: "\<forall>n. \<not> excluded n \<longrightarrow> (n \<in> patched ?t1 \<longleftrightarrow> n \<in> patched ?t2)" if "\<not> r"
      using that Cons.prems(3) by (auto simp: phdrs_callback_patched)
    have sc: "scanned (info # rest) = info # scanned rest"
      using False by (simp add: scanned_def)
    show ?thesis
      unfolding sc sweep_Cons using Cons.IH [OF conjunct1 [OF ml] conjunct2 [OF ml] p] by simp
  qed
qed

subsection \<open>The concrete process\<close>

lemmas demo_defs =
  demo_modules_def exe_module_def libc_module_def ld_module_def vdso_module_def demo_env_def
  bound_state_def lazy_state_def

lemmas run_defs =
  overwrite_symbols_def restore_symbols_def phdrs_callback_def excluded_def patch_symbols_def
  patch_symbol_def unprotect_page_def LOG_def PT_DYNAMIC_def ELF_R_SYM_def TRY_HOOK_def
  hook_chain_def PROT_READ_def PROT_WRITE_def Let_def

lemma demo_slots:
  "module_slots demo_env exe_module = [(0x404018, Malloc), (0x404028, Free)]"
  "module_slots demo_env libc_module = [(0x10003FD8, Malloc)]"
  by (simp_all add: module_slots_def segment_slots_def dyn_slots_def demo_defs
      PT_DYNAMIC_def ELF_R_SYM_def TRY_HOOK_def hook_chain_def)

subsection \<open>Claims about the patcher\<close>

lemma roundtrip_memory:
  assumes "\<forall>info \<in> set mods. \<not> excluded (dlpi_name info) \<longrightarrow>
           (\<forall>(a, h) \<in> set (module_slots E info). memory s a = d_original E h)"
  shows "memory (restore_symbols E mods (overwrite_symbols E mods s)) = memory s"
proof -
  let ?W = "concat (map (module_slots E) (scanned mods))"
  let ?V = "concat (map (module_slots E) (scanned (fresh_modules (patched s) mods)))"
  have orig: "\<forall>(a, h) \<in> set ?W. memory s a = d_original E h"
    using assms by (auto simp: scanned_def)
  have "write_slots (d_original E) ?W (write_slots (intercept E) ?V (memory s)) a = memory s a"
    for a
  proof (cases "a \<in> fst ` set ?W")
    case True
    with orig show ?thesis by (rule write_slots_restored)
  next
    case False
    moreover from False slots_subset [of E "patched s" mods] have "a \<notin> fst ` set ?V" by blast
    ultimately show ?thesis by (simp add: write_slots_other)
  qed
  then show ?thesis
    by (simp add: restore_symbols_memory overwrite_symbols_memory fun_eq_iff)
qed

text \<open>
  Claim C2, as amended. A restore sweep stores the captured original pointer of its
  hook in every matched slot of every enumerated module that is not excluded, in table
  order, whatever the slot held; a restore sweep that enumerates at least one module
  leaves the patched set empty. So an overwrite sweep followed by a restore sweep
  over the same enumeration returns a slot to its value from before patching when that
  value was the captured original pointer: if, before patching, every matched slot of
  every enumerated module that is not excluded holds the captured original pointer of
  its hook, the whole memory is afterwards as it was before patching.
\<close>

theorem overwrite_restore_roundtrip:
  "memory (restore_symbols E mods t) =
     write_slots (d_original E) (concat (map (module_slots E) (scanned mods))) (memory t)
   \<and> (mods \<noteq> [] \<longrightarrow> patched (restore_symbols E mods t) = {})
   \<and> ((\<forall>info \<in> set mods. \<not> excluded (dlpi_name info) \<longrightarrow>
          (\<forall>(a, h) \<in> set (module_slots E info). memory s a = d_original E h)) \<longrightarrow>
        memory (restore_symbols E mods (overwrite_symbols E mods s)) = memory s)"
proof (intro conjI impI)
  show "memory (restore_symbols E mods t) =
     write_slots (d_original E) (concat (map (module_slots E) (scanned mods))) (memory t)"
    by (rule restore_symbols_memory)
next
  assume "mods \<noteq> []"
  then show "patched (restore_symbols E mods t) = {}"
    by (rule restore_symbols_patched)
next
  assume "\<forall>info \<in> set mods. \<not> excluded (dlpi_name info) \<longrightarrow>
          (\<forall>(a, h) \<in> set (module_slots E info). memory s a = d_original E h)"
  then show "memory (restore_symbols E mods (overwrite_symbols E mods s)) = memory s"
    by (rule roundtrip_memory)
qed

theorem overwrite_restore_roundtrip_witness:
  "demo_modules \<noteq> []
   \<and> memory bound_state 0x404018 = d_original demo_env Malloc
   \<and> memory (overwrite_symbols demo_env demo_modules bound_state) 0x404018 =
       intercept demo_env Malloc
   \<and> memory (restore_symbols demo_env demo_modules
               (overwrite_symbols demo_env demo_modules bound_state)) = memory bound_state
   \<and> patched (restore_symbols demo_env demo_modules
                (overwrite_symbols demo_env demo_modules bound_state)) = {}"
proof -
  have ne: "demo_modules \<noteq> []" by (simp add: demo_modules_def)
  have ex: "excluded (dlpi_name ld_module)" "excluded (dlpi_name vdso_module)"
    by (simp_all add: excluded_def ld_module_def vdso_module_def)
  have orig: "\<forall>info \<in> set demo_modules. \<not> excluded (dlpi_name info) \<longrightarrow>
           (\<forall>(a, h) \<in> set (module_slots demo_env info). memory bound_state a = d_original demo_env h)"
    unfolding demo_modules_def using ex
    by (simp add: demo_slots) (simp add: bound_state_def demo_env_def)
  have a: "memory bound_state 0x404018 = d_original demo_env Malloc"
    by (simp add: bound_state_def demo_env_def)
  have b: "memory (overwrite_symbols demo_env demo_modules bound_state) 0x404018 =
       intercept demo_env Malloc"
    by (simp add: demo_defs run_defs)
  from overwrite_restore_roundtrip
         [of demo_env demo_modules "overwrite_symbols demo_env demo_modules bound_state"
             bound_state, THEN conjunct2]
       ne orig a b
  show ?thesis by simp
qed

text \<open>
  Claim C2 as stated fails: a slot that did not hold the captured original pointer
  before patching (here the executable's malloc slot, which points into its procedure
  linkage table) holds the captured original pointer after the round trip, not its value
  from before.
\<close>

theorem restore_not_prepatch_counterexample:
  "memory lazy_state 0x404018 = 0x401036
   \<and> memory (overwrite_symbols demo_env demo_modules lazy_state) 0x404018 = 0x50001000
   \<and> memory (restore_symbols demo_env demo_modules
               (overwrite_symbols demo_env demo_modules lazy_state)) 0x404018 = 0x100A0000
   \<and> memory (restore_symbols demo_env demo_modules
               (overwrite_symbols demo_env demo_modules lazy_state)) \<noteq> memory lazy_state"
proof -
  have a: "memory lazy_state 0x404018 = 0x401036"
    by (simp add: lazy_state_def)
  have b: "memory (overwrite_symbols demo_env demo_modules lazy_state) 0x404018 = 0x50001000"
    by (simp add: demo_defs run_defs)
  have c: "memory (restore_symbols demo_env demo_modules
               (overwrite_symbols demo_env demo_modules lazy_state)) 0x404018 = 0x100A0000"
    by (simp add: demo_defs run_defs)
  from a c have "memory (restore_symbols demo_env demo_modules
               (overwrite_symbols demo_env demo_modules lazy_state)) 0x404018
      \<noteq> memory lazy_state 0x404018" by simp
  then have "memory (restore_symbols demo_env demo_modules
               (overwrite_symbols demo_env demo_modules lazy_state)) \<noteq> memory lazy_state"
    by metis
  with a b c show ?thesis by simp
qed

text \<open>
  Claim C5. In an overwrite sweep the callback leaves the state untouched for a module
  whose path is already in the patched set; a second overwrite sweep over the same
  enumeration changes nothing at all; and two overwrite sweeps in a row, over whatever
  enumerations, add the line "Patching symbols for \<open>n\<close>" to the log at most once for
  each path \<open>n\<close>.
\<close>

theorem overwrite_twice_patches_once:
  "(dlpi_name info \<in> patched s \<longrightarrow> phdrs_callback E False info s = (0, s))
   \<and> overwrite_symbols E mods (overwrite_symbols E mods s) = overwrite_symbols E mods s
   \<and> count_list (log (overwrite_symbols E mods' (overwrite_symbols E mods s)))
         (Patching_symbols_for n)
       \<le> count_list (log s) (Patching_symbols_for n) + 1"
proof -
  have "overwrite_symbols E mods (overwrite_symbols E mods s) = overwrite_symbols E mods s"
    by (rule overwrite_symbols_skip_all) (simp add: overwrite_symbols_patched)
  then show ?thesis
    by (simp add: phdrs_callback_def overwrite_symbols_count overwrite_symbols_patched)
qed

theorem overwrite_twice_patches_once_witness:
  "dlpi_name libc_module \<in> patched (overwrite_symbols demo_env demo_modules bound_state)
   \<and> phdrs_callback demo_env False libc_module
        (overwrite_symbols demo_env demo_modules bound_state) =
       (0, overwrite_symbols demo_env demo_modules bound_state)
   \<and> count_list (log (overwrite_symbols demo_env demo_modules bound_state))
        (Patching_symbols_for ''/lib64/libc.so.6'') = 1
   \<and> count_list (log (overwrite_symbols demo_env demo_modules
                        (overwrite_symbols demo_env demo_modules bound_state)))
        (Patching_symbols_for ''/lib64/libc.so.6'') \<le> 1"
proof -
  let ?s = "overwrite_symbols demo_env demo_modules bound_state"
  have p: "dlpi_name libc_module \<in> patched ?s"
    by (simp add: overwrite_symbols_patched demo_defs)
  have c: "count_list (log ?s) (Patching_symbols_for ''/lib64/libc.so.6'') = 1"
    by (simp add: demo_defs run_defs)
  have l: "log bound_state = []" by (simp add: bound_state_def)
  from overwrite_twice_patches_once
         [of libc_module ?s demo_env demo_modules demo_modules "''/lib64/libc.so.6''"]
       overwrite_twice_patches_once
         [of libc_module bound_state demo_env demo_modules demo_modules "''/lib64/libc.so.6''"]
       p c l
  show ?thesis by simp
qed

lemma patch_symbol_effect:
  "memory (patch_symbol E h symname addr restore_original s) =
     (memory s)(addr := (if restore_original then d_original E h else intercept E h))
   \<and> patched (patch_symbol E h symname addr restore_original s) = patched s
   \<and> log (patch_symbol E h symname addr restore_original s) =
       log s @ (if sint (unprotect_page E addr) < 0 then [Could_not_prepare symname] else [])
             @ [Intercepted symname]"
  by (simp add: patch_symbol_def LOG_def Let_def)

text \<open>
  When the page is writable at the store, the function with page permissions returns
  what \<open>patch_symbol\<close> computes.
\<close>

lemma patch_symbol_paged_core:
  assumes "memory_page E addr \<in> writable p \<or> unprotect_page E addr = 0"
  shows "patch_symbol_paged E h symname addr restore_original p =
           Returns (p\<lparr>core := patch_symbol E h symname addr restore_original (core p),
                      writable := (if unprotect_page E addr = 0
                                   then insert (memory_page E addr) (writable p)
                                   else writable p)\<rparr>)"
  using assms
  by (auto simp: patch_symbol_paged_def unprotect_page_paged_def store_slot_def
      patch_symbol_def LOG_def Let_def)

text \<open>
  Claim C8, as amended. A negative result of the permission change is logged, and
  \<^verbatim>\<open>patch_symbol\<close> goes on to the store without reporting anything to its caller. If
  the page of the slot is writable at that point, because the change succeeded or
  because the page was writable before, the store takes effect and \<^verbatim>\<open>patch_symbol\<close>
  returns: the slot holds the pointer chosen by the direction, the rest of memory and
  the patched set are unchanged, and the log gains the warning (exactly when the result
  was negative) followed by the "intercepted" line. If the page is not writable at that
  point, the store faults: the process is killed with the slot unchanged and the log
  ending with the warning.
\<close>

theorem patch_symbol_returns_iff_page_writable:
  "(memory_page E addr \<in> writable p \<or> unprotect_page E addr = 0 \<longrightarrow>
      patch_symbol_paged E h symname addr restore_original p =
        Returns (state_of (patch_symbol_paged E h symname addr restore_original p))
      \<and> memory (core (state_of (patch_symbol_paged E h symname addr restore_original p))) =
          (memory (core p))
            (addr := (if restore_original then d_original E h else intercept E h))
      \<and> patched (core (state_of (patch_symbol_paged E h symname addr restore_original p))) =
          patched (core p)
      \<and> log (core (state_of (patch_symbol_paged E h symname addr restore_original p))) =
          log (core p)
            @ (if sint (unprotect_page E addr) < 0 then [Could_not_prepare symname] else [])
            @ [Intercepted symname])
   \<and> (memory_page E addr \<notin> writable p \<and> unprotect_page E addr \<noteq> 0 \<longrightarrow>
      patch_symbol_paged E h symname addr restore_original p =
        SIGSEGV (state_of (patch_symbol_paged E h symname addr restore_original p))
      \<and> memory (core (state_of (patch_symbol_paged E h symname addr restore_original p))) =
          memory (core p)
      \<and> patched (core (state_of (patch_symbol_paged E h symname addr restore_original p))) =
          patched (core p)
      \<and> log (core (state_of (patch_symbol_paged E h symname addr restore_original p))) =
          log (core p)
            @ (if sint (unprotect_page E addr) < 0 then [Could_not_prepare symname] else []))"
proof (intro conjI impI)
  assume w: "memory_page E addr \<in> writable p \<or> unprotect_page E addr = 0"
  note r = patch_symbol_paged_core [OF w, of h symname restore_original]
  show "patch_symbol_paged E h symname addr restore_original p =
        Returns (state_of (patch_symbol_paged E h symname addr restore_original p))"
    by (simp add: r)
  show "memory (core (state_of (patch_symbol_paged E h symname addr restore_original p))) =
          (memory (core p))
            (addr := (if restore_original then d_original E h else intercept E h))"
    by (simp add: r patch_symbol_effect)
  show "patched (core (state_of (patch_symbol_paged E h symname addr restore_original p))) =
          patched (core p)"
    by (simp add: r patch_symbol_effect)
  show "log (core (state_of (patch_symbol_paged E h symname addr restore_original p))) =
          log (core p)
            @ (if sint (unprotect_page E addr) < 0 then [Could_not_prepare symname] else [])
            @ [Intercepted symname]"
    by (simp add: r patch_symbol_effect)
next
  assume n: "memory_page E addr \<notin> writable p \<and> unprotect_page E addr \<noteq> 0"
  then have r: "patch_symbol_paged E h symname addr restore_original p =
      SIGSEGV (if sint (unprotect_page E addr) < 0
               then p\<lparr>core := LOG (Could_not_prepare symname) (core p)\<rparr> else p)"
    by (simp add: patch_symbol_paged_def unprotect_page_paged_def store_slot_def Let_def)
  show "patch_symbol_paged E h symname addr restore_original p =
        SIGSEGV (state_of (patch_symbol_paged E h symname addr restore_original p))"
    by (simp add: r)
  show "memory (core (state_of (patch_symbol_paged E h symname addr restore_original p))) =
          memory (core p)"
    by (simp add: r LOG_def)
  show "patched (core (state_of (patch_symbol_paged E h symname addr restore_original p))) =
          patched (core p)"
    by (simp add: r LOG_def)
  show "log (core (state_of (patch_symbol_paged E h symname addr restore_original p))) =
          log (core p)
            @ (if sint (unprotect_page E addr) < 0 then [Could_not_prepare symname] else [])"
    by (simp add: r LOG_def)
qed

theorem patch_symbol_returns_iff_page_writable_witness:
  "sint (unprotect_page demo_env 0x10003FD8) < 0
   \<and> memory_page demo_env 0x10003FD8 \<in> writable open_process
   \<and> patch_symbol_paged demo_env Malloc ''malloc'' 0x10003FD8 False open_process =
       Returns (state_of (patch_symbol_paged demo_env Malloc ''malloc'' 0x10003FD8 False
                            open_process))
   \<and> memory (core (state_of (patch_symbol_paged demo_env Malloc ''malloc'' 0x10003FD8 False
                                open_process))) 0x10003FD8 = 0x50001000
   \<and> log (core (state_of (patch_symbol_paged demo_env Malloc ''malloc'' 0x10003FD8 False
                             open_process))) =
       [Could_not_prepare ''malloc'', Intercepted ''malloc'']
   \<and> unprotect_page demo_env 0x404018 = 0
   \<and> memory (core (state_of (patch_symbol_paged demo_env Malloc ''malloc'' 0x404018 True
                                relro_process))) 0x404018 = 0x100A0000
   \<and> memory_page demo_env 0x10003FD8 \<notin> writable relro_process
   \<and> patch_symbol_paged demo_env Malloc ''malloc'' 0x10003FD8 False relro_process =
       SIGSEGV (state_of (patch_symbol_paged demo_env Malloc ''malloc'' 0x10003FD8 False
                            relro_process))"
proof -
  have f: "sint (unprotect_page demo_env 0x10003FD8) < 0"
    and nz: "unprotect_page demo_env 0x10003FD8 \<noteq> 0"
    and z: "unprotect_page demo_env 0x404018 = 0"
    by (simp_all add: unprotect_page_def demo_env_def PROT_READ_def PROT_WRITE_def)
  have w: "memory_page demo_env 0x10003FD8 \<in> writable open_process"
    and nw: "memory_page demo_env 0x10003FD8 \<notin> writable relro_process"
    by (simp_all add: memory_page_def demo_env_def open_process_def relro_process_def)
  have i: "intercept demo_env Malloc = 0x50001000" "d_original demo_env Malloc = 0x100A0000"
    by (simp_all add: demo_env_def)
  have l: "log (core open_process) = []"
    by (simp add: open_process_def bound_state_def)
  from patch_symbol_returns_iff_page_writable
         [of demo_env "0x10003FD8" open_process Malloc "''malloc''" False]
       patch_symbol_returns_iff_page_writable
         [of demo_env "0x404018" relro_process Malloc "''malloc''" True]
       patch_symbol_returns_iff_page_writable
         [of demo_env "0x10003FD8" relro_process Malloc "''malloc''" False]
       f nz z w nw i l
  show ?thesis by simp
qed

text \<open>
  Claim C8 as stated fails on a read-only page whose permission cannot be changed: the
  warning is logged, the store faults, the slot keeps its value and \<^verbatim>\<open>patch_symbol\<close>
  does not return.
\<close>

theorem patch_symbol_faults_on_read_only_page_counterexample:
  "patch_symbol_paged demo_env Malloc ''malloc'' 0x10003FD8 False relro_process =
     SIGSEGV \<lparr>core = \<lparr>memory = memory bound_state, patched = {},
                        log = [Could_not_prepare ''malloc'']\<rparr>,
              writable = {0x404000}\<rparr>
   \<and> memory bound_state 0x10003FD8 = 0x100A0000"
  by (simp add: patch_symbol_paged_def unprotect_page_paged_def store_slot_def memory_page_def
      unprotect_page_def LOG_def Let_def PROT_READ_def PROT_WRITE_def demo_env_def
      relro_process_def bound_state_def)

text \<open>
  Claim C9. For a module whose path contains "/ld-linux" or "linux-vdso.so.1" the
  callback returns 0 with memory and log unchanged, in both directions. A sweep over an
  enumeration ends with the memory and the log of the sweep over the enumeration without
  its excluded modules.
\<close>

theorem excluded_modules_never_patched:
  "(excluded (dlpi_name info) \<longrightarrow>
      fst (phdrs_callback E r info s) = 0
      \<and> memory (snd (phdrs_callback E r info s)) = memory s
      \<and> log (snd (phdrs_callback E r info s)) = log s)
   \<and> memory (overwrite_symbols E mods s) = memory (overwrite_symbols E (scanned mods) s)
   \<and> log (overwrite_symbols E mods s) = log (overwrite_symbols E (scanned mods) s)
   \<and> memory (restore_symbols E mods s) = memory (restore_symbols E (scanned mods) s)
   \<and> log (restore_symbols E mods s) = log (restore_symbols E (scanned mods) s)"
proof -
  have cb: "memory (snd (phdrs_callback E r info s)) = memory s
          \<and> log (snd (phdrs_callback E r info s)) = log s"
    if "excluded (dlpi_name info)"
    using that by (simp add: phdrs_callback_scan scan_def)
  have sw: "memory (snd (dl_iterate_phdr (phdrs_callback E r') mods s)) =
              memory (snd (dl_iterate_phdr (phdrs_callback E r') (scanned mods) s))
          \<and> log (snd (dl_iterate_phdr (phdrs_callback E r') mods s)) =
              log (snd (dl_iterate_phdr (phdrs_callback E r') (scanned mods) s))" for r'
    by (rule sweep_scanned) simp_all
  from cb sw [of False] sw [of True] show ?thesis
    by (simp add: phdrs_callback_fst overwrite_symbols_def restore_symbols_def)
qed

theorem excluded_modules_never_patched_witness:
  "excluded (dlpi_name ld_module)
   \<and> module_slots demo_env ld_module = [(0x20004018, Malloc)]
   \<and> memory (snd (phdrs_callback demo_env False ld_module bound_state)) = memory bound_state
   \<and> log (snd (phdrs_callback demo_env False ld_module bound_state)) = []
   \<and> log (overwrite_symbols demo_env demo_modules bound_state) =
       log (overwrite_symbols demo_env [exe_module, libc_module] bound_state)"
proof -
  have ex: "excluded (dlpi_name ld_module)"
    by (simp add: excluded_def ld_module_def)
  have sl: "module_slots demo_env ld_module = [(0x20004018, Malloc)]"
    by (simp add: module_slots_def segment_slots_def dyn_slots_def demo_defs
      PT_DYNAMIC_def ELF_R_SYM_def TRY_HOOK_def hook_chain_def)
  have sc: "scanned demo_modules = [exe_module, libc_module]"
    by (simp add: scanned_def excluded_def demo_defs)
  have l: "log bound_state = []" by (simp add: bound_state_def)
  from excluded_modules_never_patched [of ld_module demo_env False bound_state demo_modules]
    ex sl sc l
  show ?thesis by simp
qed

text \<open>
  Claim C10. After an overwrite sweep the patched set holds the path of every
  enumerated module, excluded or not; for an excluded module that was not in the set,
  the callback adds its path to the set and changes nothing else.
\<close>

theorem excluded_modules_enter_patched_set:
  "patched (overwrite_symbols E mods s) = patched s \<union> dlpi_name ` set mods
   \<and> (excluded (dlpi_name info) \<and> dlpi_name info \<notin> patched s \<longrightarrow>
        phdrs_callback E False info s = (0, s\<lparr>patched := insert (dlpi_name info) (patched s)\<rparr>))"
  by (simp add: overwrite_symbols_patched phdrs_callback_def)

theorem excluded_modules_enter_patched_set_witness:
  "excluded (dlpi_name ld_module)
   \<and> patched (overwrite_symbols demo_env demo_modules bound_state) =
       {[], ''/lib64/libc.so.6'', ''/lib64/ld-linux-x86-64.so.2'', ''linux-vdso.so.1''}
   \<and> phdrs_callback demo_env False ld_module bound_state =
       (0, bound_state\<lparr>patched := {''/lib64/ld-linux-x86-64.so.2''}\<rparr>)"
proof -
  have ex: "excluded (dlpi_name ld_module)"
    by (simp add: excluded_def ld_module_def)
  have p: "patched bound_state = {}" by (simp add: bound_state_def)
  have n: "dlpi_name ` set demo_modules =
       {[], ''/lib64/libc.so.6'', ''/lib64/ld-linux-x86-64.so.2'', ''linux-vdso.so.1''}"
    by (simp add: demo_defs)
  have m: "dlpi_name ld_module = ''/lib64/ld-linux-x86-64.so.2''" by (simp add: ld_module_def)
  from excluded_modules_enter_patched_set [of demo_env demo_modules bound_state ld_module]
    ex p n m
  show ?thesis by simp
qed

section \<open>Properties of the symbol finder\<close>

lemma symfind_segments_char:
  "symfind_segments E info phs q =
     (case segment_symbol E (symbol_name q) info phs of
        None \<Rightarrow> (0, q)
      | Some a \<Rightarrow> (1, q\<lparr>address := a\<rparr>))"
  by (induction phs) (auto simp: segment_symbol_def Let_def)

lemma segment_symbol_nonzero: "segment_symbol E name info phs = Some a \<Longrightarrow> a \<noteq> 0"
proof -
  assume h: "segment_symbol E name info phs = Some a"
  let ?xs = "filter (\<lambda>a. a \<noteq> 0)
             (map (\<lambda>ph. getSymbolAddress E (dlpi_addr info) (p_vaddr ph + dlpi_addr info) name)
                (filter (\<lambda>ph. p_type ph = PT_DYNAMIC) phs))"
  from h obtain rest where "?xs = a # rest"
    by (auto simp: segment_symbol_def split: list.splits)
  then have "a \<in> set ?xs" by simp
  then show ?thesis by simp
qed

lemma first_resolved_nonzero: "first_resolved E name mods = Some a \<Longrightarrow> a \<noteq> 0"
  by (induction mods)
     (auto simp: module_symbol_def split: option.splits dest: segment_symbol_nonzero)

lemma callback_char:
  "phdr_symfind_callback E info q =
     (if (maps_visited q \<noteq> 0 \<and> dlpi_name info = []) \<or> is_vdso info
      then (0, q\<lparr>maps_visited := maps_visited q + 1\<rparr>)
      else case module_symbol E (symbol_name q) info of
             None \<Rightarrow> (0, q\<lparr>maps_visited := maps_visited q + 1\<rparr>)
           | Some a \<Rightarrow> (1, q\<lparr>maps_visited := maps_visited q + 1, address := a\<rparr>))"
  by (simp add: phdr_symfind_callback_def Let_def is_vdso_def module_symbol_def
      symfind_segments_char)

lemma counter_step:
  fixes x :: "64 word"
  assumes "unat x + 1 < 2 ^ 64"
  shows "x + 1 \<noteq> 0" and "unat (x + 1) = unat x + 1"
proof -
  from assms have "unat x + unat (1 :: 64 word) < 2 ^ LENGTH(64)" by simp
  then have "unat (x + 1) = unat x + unat (1 :: 64 word)" by (simp only: unat_add_lem)
  then show u: "unat (x + 1) = unat x + 1" by simp
  then have "0 < unat (x + 1)" by simp
  then show "x + 1 \<noteq> 0" using unat_gt_0 [of "x + 1"] by blast
qed

lemma iterate_later:
  assumes "maps_visited q \<noteq> 0" and "unat (maps_visited q) + length mods < 2 ^ 64"
  shows "fst (dl_iterate_phdr (phdr_symfind_callback E) mods q) =
           (case first_resolved E (symbol_name q) (later_visited mods) of None \<Rightarrow> 0 | Some a \<Rightarrow> 1)
       \<and> address (snd (dl_iterate_phdr (phdr_symfind_callback E) mods q)) =
           (case first_resolved E (symbol_name q) (later_visited mods) of
              None \<Rightarrow> address q | Some a \<Rightarrow> a)
       \<and> (first_resolved E (symbol_name q) (later_visited mods) = None \<longrightarrow>
            unat (maps_visited (snd (dl_iterate_phdr (phdr_symfind_callback E) mods q))) =
              unat (maps_visited q) + length mods)"
  using assms
proof (induction mods arbitrary: q)
  case Nil
  show ?case by (simp add: later_visited_def)
next
  case (Cons info rest)
  let ?q1 = "q\<lparr>maps_visited := maps_visited q + 1\<rparr>"
  from Cons.prems(2) have b: "unat (maps_visited q) + 1 < 2 ^ 64" by simp
  have nz: "maps_visited ?q1 \<noteq> 0" using counter_step(1) [OF b] by simp
  have un: "unat (maps_visited ?q1) = unat (maps_visited q) + 1"
    using counter_step(2) [OF b] by simp
  have len: "unat (maps_visited ?q1) + length rest < 2 ^ 64"
    using un Cons.prems(2) by simp
  note IH = Cons.IH [OF nz len]
  show ?case
  proof (cases "dlpi_name info = [] \<or> is_vdso info")
    case True
    then have cb: "phdr_symfind_callback E info q = (0, ?q1)"
      using Cons.prems(1) by (auto simp: callback_char)
    have lv: "later_visited (info # rest) = later_visited rest"
      using True by (auto simp: later_visited_def)
    show ?thesis using IH un by (simp add: cb lv split: option.splits)
  next
    case False
    then have lv: "later_visited (info # rest) = info # later_visited rest"
      by (simp add: later_visited_def)
    show ?thesis
    proof (cases "module_symbol E (symbol_name q) info")
      case None
      then have cb: "phdr_symfind_callback E info q = (0, ?q1)"
        using False by (simp add: callback_char)
      show ?thesis using IH un None by (simp add: cb lv split: option.splits)
    next
      case (Some a)
      then have cb: "phdr_symfind_callback E info q = (1, ?q1\<lparr>address := a\<rparr>)"
        using False by (simp add: callback_char)
      show ?thesis using Some by (simp add: cb lv)
    qed
  qed
qed

lemma dl_iterate_phdr_stops:
  "fst (dl_iterate_phdr callback mods d) \<noteq> 0 \<Longrightarrow>
     dl_iterate_phdr callback (mods @ extra) d = dl_iterate_phdr callback mods d"
proof (induction mods arbitrary: d)
  case Nil
  then show ?case by simp
next
  case (Cons info rest)
  obtain ret d' where cb: "callback info d = (ret, d')" by (cases "callback info d")
  show ?case
  proof (cases "ret = 0")
    case True
    with Cons cb show ?thesis by simp
  next
    case False
    with cb show ?thesis by simp
  qed
qed

lemma run_symbol_query_char:
  assumes "length mods < 2 ^ 64"
  shows "fst (run_symbol_query E name mods) =
           (case first_resolved E name (visited_modules mods) of None \<Rightarrow> 0 | Some a \<Rightarrow> 1)
       \<and> address (snd (run_symbol_query E name mods)) =
           (case first_resolved E name (visited_modules mods) of None \<Rightarrow> 0 | Some a \<Rightarrow> a)
       \<and> (first_resolved E name (visited_modules mods) = None \<longrightarrow>
            unat (maps_visited (snd (run_symbol_query E name mods))) = length mods)"
proof (cases mods)
  case Nil
  then show ?thesis
    by (simp add: run_symbol_query_def visited_modules_def later_visited_def)
next
  case (Cons info rest)
  let ?q0 = "\<lparr>maps_visited = 0, symbol_name = name, address = 0\<rparr>"
  let ?q1 = "\<lparr>maps_visited = 1, symbol_name = name, address = 0\<rparr>"
  have nz: "maps_visited ?q1 \<noteq> 0" by simp
  have len: "unat (maps_visited ?q1) + length rest < 2 ^ 64"
    using assms Cons by simp
  note later = iterate_later [OF nz len, of E]
  show ?thesis
  proof (cases "is_vdso info")
    case True
    then have cb: "phdr_symfind_callback E info ?q0 = (0, ?q1)"
      by (simp add: callback_char)
    have vm: "visited_modules (info # rest) = later_visited rest"
      using True by (simp add: visited_modules_def)
    show ?thesis using later Cons
      by (simp add: run_symbol_query_def cb vm split: option.splits)
  next
    case False
    then have vm: "visited_modules (info # rest) = info # later_visited rest"
      by (simp add: visited_modules_def)
    show ?thesis
    proof (cases "module_symbol E name info")
      case None
      then have cb: "phdr_symfind_callback E info ?q0 = (0, ?q1)"
        using False by (simp add: callback_char)
      show ?thesis using later Cons None
        by (simp add: run_symbol_query_def cb vm split: option.splits)
    next
      case (Some a)
      then have cb: "phdr_symfind_callback E info ?q0 = (1, ?q1\<lparr>address := a\<rparr>)"
        using False by (simp add: callback_char)
      show ?thesis using Cons Some
        by (simp add: run_symbol_query_def cb vm)
    qed
  qed
qed

lemma findSymbol_first_resolved:
  assumes "length mods < 2 ^ 64"
  shows "findSymbol E name mods = first_resolved E name (visited_modules mods)"
proof (cases "first_resolved E name (visited_modules mods)")
  case None
  with run_symbol_query_char [OF assms, of E name] show ?thesis
    by (simp add: findSymbol_def)
next
  case (Some a)
  then have "a \<noteq> 0" by (rule first_resolved_nonzero)
  with run_symbol_query_char [OF assms, of E name] Some show ?thesis
    by (simp add: findSymbol_def)
qed

lemmas sym_defs =
  findSymbol_def run_symbol_query_def phdr_symfind_callback_def PT_DYNAMIC_def Let_def
  spec_findSymbol_def is_vdso_def module_symbol_def segment_symbol_def visited_modules_def
  later_visited_def

lemma spec_visited_seen:
  "spec_visited True mods = later_visited mods"
  by (induction mods) (auto simp: later_visited_def is_vdso_def)

lemma visited_modules_executable_first:
  assumes "mods \<noteq> []" and "dlpi_name (hd mods) = []"
  shows "visited_modules mods = spec_visited False mods"
proof -
  from assms(1) obtain info rest where m: "mods = info # rest" by (cases mods) auto
  with assms(2) have e: "dlpi_name info = []" by simp
  then have "\<not> is_vdso info" by (simp add: is_vdso_def)
  with m e show ?thesis by (simp add: visited_modules_def spec_visited_seen)
qed

text \<open>
  Claim C6. The enumeration is the platform's: it starts with the main program, whose
  path is empty, and has fewer than \<open>2 ^ 64\<close> modules. Over such an enumeration the
  symbol finder returns the first address resolved by the modules that are left when
  the vDSO is skipped and, of the modules with an empty path, only the first occurrence
  is read. When an address is found the callback has returned 1 and the modules that
  follow are not examined (appending modules changes neither the result nor the
  counter); when none is found the callback has returned 0 for every module and the
  counter equals the number of modules.
\<close>

theorem findSymbol_reads_first_empty_path_module:
  assumes "length mods < 2 ^ 64" and "mods \<noteq> []" and "dlpi_name (hd mods) = []"
  shows "findSymbol E name mods = first_resolved E name (spec_visited False mods)
       \<and> (findSymbol E name mods \<noteq> None \<longrightarrow>
            fst (run_symbol_query E name mods) = 1
            \<and> run_symbol_query E name (mods @ extra) = run_symbol_query E name mods)
       \<and> (findSymbol E name mods = None \<longrightarrow>
            fst (run_symbol_query E name mods) = 0
            \<and> unat (maps_visited (snd (run_symbol_query E name mods))) = length mods)"
proof -
  note char = run_symbol_query_char [OF assms(1), of E name]
  note eq = findSymbol_first_resolved [OF assms(1), of E name]
  note vm = visited_modules_executable_first [OF assms(2,3)]
  have found: "fst (run_symbol_query E name mods) = 1
       \<and> run_symbol_query E name (mods @ extra) = run_symbol_query E name mods"
    if "findSymbol E name mods \<noteq> None"
  proof -
    from that eq obtain a where "first_resolved E name (visited_modules mods) = Some a"
      by auto
    with char have one: "fst (run_symbol_query E name mods) = 1" by simp
    then have "fst (dl_iterate_phdr (phdr_symfind_callback E) mods
                 \<lparr>maps_visited = 0, symbol_name = name, address = 0\<rparr>) \<noteq> 0"
      by (simp add: run_symbol_query_def)
    then have "run_symbol_query E name (mods @ extra) = run_symbol_query E name mods"
      unfolding run_symbol_query_def by (rule dl_iterate_phdr_stops)
    with one show ?thesis by simp
  qed
  have missing: "fst (run_symbol_query E name mods) = 0
       \<and> unat (maps_visited (snd (run_symbol_query E name mods))) = length mods"
    if "findSymbol E name mods = None"
    using that eq char by simp
  from eq vm found missing show ?thesis by simp
qed

theorem findSymbol_reads_first_empty_path_module_witness:
  "length demo_modules < 2 ^ 64
   \<and> dlpi_name (hd demo_modules) = []
   \<and> spec_visited False (demo_modules @ [exe_module]) = [exe_module, libc_module, ld_module]
   \<and> findSymbol demo_env ''malloc'' demo_modules = Some 0x100A0000
   \<and> run_symbol_query demo_env ''malloc'' (demo_modules @ [exe_module]) =
       (1, \<lparr>maps_visited = 2, symbol_name = ''malloc'', address = 0x100A0000\<rparr>)
   \<and> findSymbol demo_env ''puts'' demo_modules = None
   \<and> unat (maps_visited (snd (run_symbol_query demo_env ''puts'' demo_modules))) = 4"
proof -
  have len: "length demo_modules < 2 ^ 64" by (simp add: demo_modules_def)
  have ne: "demo_modules \<noteq> []" by (simp add: demo_modules_def)
  have first: "dlpi_name (hd demo_modules) = []" by (simp add: demo_defs)
  have v: "spec_visited False demo_modules = [exe_module, libc_module, ld_module]"
    by (simp add: sym_defs demo_defs)
  have v2: "spec_visited False (demo_modules @ [exe_module]) =
      [exe_module, libc_module, ld_module]"
    by (simp add: sym_defs demo_defs)
  have a: "first_resolved demo_env ''malloc'' [exe_module, libc_module, ld_module] =
      Some 0x100A0000"
    by (simp add: sym_defs demo_defs)
  have b: "first_resolved demo_env ''puts'' [exe_module, libc_module, ld_module] = None"
    by (simp add: sym_defs demo_defs)
  have r: "run_symbol_query demo_env ''malloc'' demo_modules =
       (1, \<lparr>maps_visited = 2, symbol_name = ''malloc'', address = 0x100A0000\<rparr>)"
    by (simp add: sym_defs demo_defs)
  have n: "length demo_modules = 4" by (simp add: demo_modules_def)
  from findSymbol_reads_first_empty_path_module
         [OF len ne first, of demo_env "''malloc''" "[exe_module]"]
       findSymbol_reads_first_empty_path_module
         [OF len ne first, of demo_env "''puts''" "[]"]
       len first v v2 a b r n
  show ?thesis by simp
qed

text \<open>
  The start of the enumeration matters: the callback tells the executable by its
  position, not by being the first module with an empty path. Were a module with a path
  handed over before it, the executable would not be read.
\<close>

lemma findSymbol_named_module_first:
  "findSymbol demo_env ''PyGILState_Ensure'' [libc_module, exe_module] = None
   \<and> spec_findSymbol demo_env ''PyGILState_Ensure'' [libc_module, exe_module] = Some 0x4A0000"
  by (simp add: sym_defs demo_defs)

end
